theory Spec2Isabelle
  imports Complex_Main
begin

section \<open>JavaScript numbers\<close>

text \<open>
  The engine of \<^verbatim>\<open>useSleepState.ts\<close> computes with JavaScript numbers.  A number is
  modelled as a real, one of the two infinities, or NaN.  The rounding of binary64
  arithmetic and the sign of zero are not modelled: every finite operation is exact.
  Where the engine rounds a sum or a quotient to one or two decimals, the exact value and
  the binary64 value can fall on different sides of a tie, so the theorems below state
  such results through the operations \<open>jsAdd\<close>, \<open>jsDiv\<close>, \<open>jsRound\<close> of the
  code and not through a closed formula over the reals.
  Loop counters and the values computed from them and from constants alone are integers;
  a \<^verbatim>\<open>timestamp\<close> (the result of \<^verbatim>\<open>Date.now()\<close>) is an integer number of milliseconds.
\<close>

datatype jsnum = Fin real | PInf | NInf | NaN

fun jsNeg :: "jsnum \<Rightarrow> jsnum" where
  "jsNeg (Fin a) = Fin (- a)"
| "jsNeg PInf = NInf"
| "jsNeg NInf = PInf"
| "jsNeg NaN = NaN"

fun jsAdd :: "jsnum \<Rightarrow> jsnum \<Rightarrow> jsnum" where
  "jsAdd (Fin a) (Fin b) = Fin (a + b)"
| "jsAdd NaN y = NaN"
| "jsAdd x NaN = NaN"
| "jsAdd PInf NInf = NaN"
| "jsAdd NInf PInf = NaN"
| "jsAdd PInf y = PInf"
| "jsAdd x PInf = PInf"
| "jsAdd NInf y = NInf"
| "jsAdd x NInf = NInf"

definition jsSub :: "jsnum \<Rightarrow> jsnum \<Rightarrow> jsnum" where
  "jsSub x y = jsAdd x (jsNeg y)"

fun jsMul :: "jsnum \<Rightarrow> jsnum \<Rightarrow> jsnum" where
  "jsMul (Fin a) (Fin b) = Fin (a * b)"
| "jsMul NaN y = NaN"
| "jsMul x NaN = NaN"
| "jsMul (Fin a) y = (if a = 0 then NaN else if (0 < a) = (y = PInf) then PInf else NInf)"
| "jsMul x (Fin b) = (if b = 0 then NaN else if (0 < b) = (x = PInf) then PInf else NInf)"
| "jsMul x y = (if x = y then PInf else NInf)"

text \<open>
  Division by a zero takes the zero to be positive (the sign of zero is not modelled).
  Every divisor in the source is a non-zero constant or a list length tested to be
  positive.
\<close>

fun jsDiv :: "jsnum \<Rightarrow> jsnum \<Rightarrow> jsnum" where
  "jsDiv (Fin a) (Fin b) =
     (if b = 0 then (if a = 0 then NaN else if 0 < a then PInf else NInf) else Fin (a / b))"
| "jsDiv NaN y = NaN"
| "jsDiv x NaN = NaN"
| "jsDiv (Fin a) y = Fin 0"
| "jsDiv x (Fin b) = (if (0 \<le> b) = (x = PInf) then PInf else NInf)"
| "jsDiv x y = NaN"

definition jsTrunc :: "real \<Rightarrow> int" where
  "jsTrunc x = (if 0 \<le> x then \<lfloor>x\<rfloor> else \<lceil>x\<rceil>)"

text \<open>The remainder operator \<^verbatim>\<open>%\<close>: the result has the sign of the dividend.\<close>

fun jsRem :: "jsnum \<Rightarrow> jsnum \<Rightarrow> jsnum" where
  "jsRem (Fin a) (Fin b) = (if b = 0 then NaN else Fin (a - b * of_int (jsTrunc (a / b))))"
| "jsRem NaN y = NaN"
| "jsRem x NaN = NaN"
| "jsRem (Fin a) y = Fin a"
| "jsRem x y = NaN"

fun jsLt :: "jsnum \<Rightarrow> jsnum \<Rightarrow> bool" where
  "jsLt (Fin a) (Fin b) = (a < b)"
| "jsLt NaN y = False"
| "jsLt x NaN = False"
| "jsLt NInf y = (y \<noteq> NInf)"
| "jsLt x PInf = (x \<noteq> PInf)"
| "jsLt x y = False"

definition jsLe :: "jsnum \<Rightarrow> jsnum \<Rightarrow> bool" where
  "jsLe x y = (jsLt x y \<or> (x = y \<and> x \<noteq> NaN))"

definition jsGt :: "jsnum \<Rightarrow> jsnum \<Rightarrow> bool" where
  "jsGt x y = jsLt y x"

definition jsGe :: "jsnum \<Rightarrow> jsnum \<Rightarrow> bool" where
  "jsGe x y = jsLe y x"

text \<open>\<^verbatim>\<open>Math.round\<close> rounds to the nearest integer, a tie towards plus infinity.\<close>

fun jsRound :: "jsnum \<Rightarrow> jsnum" where
  "jsRound (Fin a) = Fin (of_int \<lfloor>a + 1 / 2\<rfloor>)"
| "jsRound x = x"

fun jsFloor :: "jsnum \<Rightarrow> jsnum" where
  "jsFloor (Fin a) = Fin (of_int \<lfloor>a\<rfloor>)"
| "jsFloor x = x"

text \<open>\<^verbatim>\<open>Math.max\<close> and \<^verbatim>\<open>Math.min\<close> of two numbers: NaN when either is NaN.\<close>

definition jsMax :: "jsnum \<Rightarrow> jsnum \<Rightarrow> jsnum" where
  "jsMax x y = (if x = NaN \<or> y = NaN then NaN else if jsLt x y then y else x)"

definition jsMin :: "jsnum \<Rightarrow> jsnum \<Rightarrow> jsnum" where
  "jsMin x y = (if x = NaN \<or> y = NaN then NaN else if jsLt y x then y else x)"

text \<open>
  \<^verbatim>\<open>Math.sin\<close> and \<^verbatim>\<open>Math.cos\<close>, exact here.  In binary64 the multiples of \<open>\<pi>\<close> are
  rounded, so that two sines that cancel here leave a sum of the order of \<^verbatim>\<open>1e-16\<close> there.
\<close>

fun jsSin :: "jsnum \<Rightarrow> jsnum" where
  "jsSin (Fin a) = Fin (sin a)"
| "jsSin x = NaN"

fun jsCos :: "jsnum \<Rightarrow> jsnum" where
  "jsCos (Fin a) = Fin (cos a)"
| "jsCos x = NaN"

text \<open>
  \<^verbatim>\<open>Math.atan2(y, x)\<close>: the angle of the point \<open>(x, y)\<close> in \<open>(-\<pi>, \<pi>]\<close>.  With both
  arguments zero the result is taken for positive zeros.
\<close>

definition atan2 :: "real \<Rightarrow> real \<Rightarrow> real" where
  "atan2 y x =
     (if 0 < x then arctan (y / x)
      else if x < 0 then (if 0 \<le> y then arctan (y / x) + pi else arctan (y / x) - pi)
      else if 0 < y then pi / 2
      else if y < 0 then - (pi / 2)
      else 0)"

fun jsAtan2 :: "jsnum \<Rightarrow> jsnum \<Rightarrow> jsnum" where
  "jsAtan2 (Fin y) (Fin x) = Fin (atan2 y x)"
| "jsAtan2 NaN x = NaN"
| "jsAtan2 y NaN = NaN"
| "jsAtan2 (Fin y) PInf = Fin 0"
| "jsAtan2 (Fin y) NInf = (if 0 \<le> y then Fin pi else Fin (- pi))"
| "jsAtan2 PInf (Fin x) = Fin (pi / 2)"
| "jsAtan2 NInf (Fin x) = Fin (- (pi / 2))"
| "jsAtan2 PInf PInf = Fin (pi / 4)"
| "jsAtan2 PInf NInf = Fin (3 * pi / 4)"
| "jsAtan2 NInf PInf = Fin (- (pi / 4))"
| "jsAtan2 NInf NInf = Fin (- (3 * pi / 4))"

section \<open>JavaScript strings and conversions\<close>

text \<open>
  A string is a list of 8-bit characters, read as the code units 0 to 255; strings with
  code units above 255 are outside the model.
\<close>

definition isDigit :: "char \<Rightarrow> bool" where
  "isDigit c = (48 \<le> (of_char c :: nat) \<and> (of_char c :: nat) \<le> 57)"

definition digitVal :: "char \<Rightarrow> nat" where
  "digitVal c = of_char c - 48"

definition digitChar :: "nat \<Rightarrow> char" where
  "digitChar d = ''0123456789'' ! d"

definition digitsVal :: "string \<Rightarrow> nat" where
  "digitsVal ds = foldl (\<lambda>a c. 10 * a + digitVal c) 0 ds"

text \<open>White space and line terminators that \<^verbatim>\<open>Number\<close> strips, among the code units below 256.\<close>

definition isWhite :: "char \<Rightarrow> bool" where
  "isWhite c = ((of_char c :: nat) \<in> set [9, 10, 11, 12, 13, 32, 160])"

definition trim :: "string \<Rightarrow> string" where
  "trim s = rev (dropWhile isWhite (rev (dropWhile isWhite s)))"

text \<open>Digits of the literals \<^verbatim>\<open>0x..\<close>, \<^verbatim>\<open>0o..\<close> and \<^verbatim>\<open>0b..\<close>: the value of a digit, if it is one.\<close>

definition hexVal :: "char \<Rightarrow> nat option" where
  "hexVal c =
     (let n = (of_char c :: nat) in
      if 48 \<le> n \<and> n \<le> 57 then Some (n - 48)
      else if 65 \<le> n \<and> n \<le> 70 then Some (n - 55)
      else if 97 \<le> n \<and> n \<le> 102 then Some (n - 87)
      else None)"

definition radixDigits :: "nat \<Rightarrow> string \<Rightarrow> jsnum" where
  "radixDigits b ds =
     (if ds \<noteq> [] \<and> list_all (\<lambda>c. case hexVal c of None \<Rightarrow> False | Some v \<Rightarrow> v < b) ds
      then Fin (real (foldl (\<lambda>a c. b * a + the (hexVal c)) 0 ds))
      else NaN)"

text \<open>
  An unsigned decimal literal: digits, an optional fraction and an optional exponent,
  with a digit before or after the point.
\<close>

definition exponentPart :: "string \<Rightarrow> int option" where
  "exponentPart r =
     (case r of
        [] \<Rightarrow> Some 0
      | c # r1 \<Rightarrow>
          if c = CHR ''e'' \<or> c = CHR ''E'' then
            (let neg = (r1 \<noteq> [] \<and> hd r1 = CHR ''-'');
                 r2 = (if r1 \<noteq> [] \<and> (hd r1 = CHR ''+'' \<or> hd r1 = CHR ''-'') then tl r1 else r1)
             in if r2 \<noteq> [] \<and> list_all isDigit r2
                then Some (if neg then - int (digitsVal r2) else int (digitsVal r2))
                else None)
          else None)"

definition unsignedDecimal :: "string \<Rightarrow> jsnum" where
  "unsignedDecimal s =
     (let ip = takeWhile isDigit s;
          r1 = dropWhile isDigit s;
          dot = (r1 \<noteq> [] \<and> hd r1 = CHR ''.'');
          fp = (if dot then takeWhile isDigit (tl r1) else []);
          r2 = (if dot then dropWhile isDigit (tl r1) else r1)
      in if ip = [] \<and> fp = [] then NaN
         else (case exponentPart r2 of
                 None \<Rightarrow> NaN
               | Some e \<Rightarrow>
                   Fin ((real (digitsVal ip) + real (digitsVal fp) / 10 ^ length fp)
                        * 10 powi e)))"

definition strDecimal :: "string \<Rightarrow> jsnum" where
  "strDecimal s =
     (let neg = (s \<noteq> [] \<and> hd s = CHR ''-'');
          u = (if s \<noteq> [] \<and> (hd s = CHR ''+'' \<or> hd s = CHR ''-'') then tl s else s);
          v = (if u = ''Infinity'' then PInf else unsignedDecimal u)
      in if neg then jsNeg v else v)"

text \<open>
  \<^verbatim>\<open>Number(s)\<close> for a string \<open>s\<close>: never an exception, NaN for what is not a numeric
  literal.  The value of a literal is the exact one here: \<^verbatim>\<open>Number\<close> rounds it to the nearest
  binary64 value, to an infinity when it is too large.  Integers of at most 15 digits are
  not changed by that rounding.
\<close>

definition jsNumber :: "string \<Rightarrow> jsnum" where
  "jsNumber s =
     (let t = trim s in
      if t = [] then Fin 0
      else if take 2 t = ''0x'' \<or> take 2 t = ''0X'' then radixDigits 16 (drop 2 t)
      else if take 2 t = ''0o'' \<or> take 2 t = ''0O'' then radixDigits 8 (drop 2 t)
      else if take 2 t = ''0b'' \<or> take 2 t = ''0B'' then radixDigits 2 (drop 2 t)
      else strDecimal t)"

text \<open>\<^verbatim>\<open>s.split(c)\<close> for a one-character separator: at least one piece, also for the empty string.\<close>

fun splitOn :: "char \<Rightarrow> string \<Rightarrow> string list" where
  "splitOn c [] = [[]]"
| "splitOn c (x # xs) =
     (if x = c then [] # splitOn c xs
      else (x # hd (splitOn c xs)) # tl (splitOn c xs))"

text \<open>
  \<^verbatim>\<open>String(n)\<close>.  An integer below \<open>10^21\<close> in magnitude prints its decimal digits.
  Any other finite number prints the shortest decimal that reads back as the same
  binary64 value, which this development does not model: the result is left unspecified
  there.
\<close>

fun natToString :: "nat \<Rightarrow> string" where
  "natToString n = (if n < 10 then [digitChar n] else natToString (n div 10) @ [digitChar (n mod 10)])"

declare natToString.simps [simp del]

fun numToString :: "jsnum \<Rightarrow> string" where
  "numToString NaN = ''NaN''"
| "numToString PInf = ''Infinity''"
| "numToString NInf = ''-Infinity''"
| "numToString (Fin r) =
     (if r \<in> \<int> \<and> \<bar>r\<bar> < 10 ^ 21
      then (if r < 0 then CHR ''-'' # natToString (nat \<lfloor>- r\<rfloor>) else natToString (nat \<lfloor>r\<rfloor>))
      else undefined)"

text \<open>\<^verbatim>\<open>s.padStart(2, '0')\<close>\<close>

definition padStart2 :: "string \<Rightarrow> string" where
  "padStart2 s = replicate (2 - length s) CHR ''0'' @ s"

section \<open>Time utilities\<close>

text \<open>
  \<^verbatim>\<open>parseTime\<close> destructures the first two pieces of the split; a piece that is missing is
  \<^verbatim>\<open>undefined\<close>, modelled by \<open>None\<close>.  The function has no failure branch.
\<close>

record parsedTime =
  hours :: "jsnum option"
  minutes :: "jsnum option"

definition nthOpt :: "'a list \<Rightarrow> nat \<Rightarrow> 'a option" where
  "nthOpt xs i = (if i < length xs then Some (xs ! i) else None)"

definition parseTime :: "string \<Rightarrow> parsedTime" where
  "parseTime timeStr =
     (let parts = map jsNumber (splitOn CHR '':'' timeStr)
      in \<lparr>hours = nthOpt parts 0, minutes = nthOpt parts 1\<rparr>)"

text \<open>A value used as an operand of arithmetic: \<^verbatim>\<open>undefined\<close> converts to NaN.\<close>

fun toNumber :: "jsnum option \<Rightarrow> jsnum" where
  "toNumber None = NaN"
| "toNumber (Some x) = x"

definition padTime :: "jsnum \<Rightarrow> jsnum \<Rightarrow> string" where
  "padTime hrs mins =
     (let h = jsRem (jsAdd (jsRem hrs (Fin 24)) (Fin 24)) (Fin 24)
      in padStart2 (numToString h) @ '':'' @ padStart2 (numToString mins))"

definition timeToMinutes :: "string \<Rightarrow> jsnum" where
  "timeToMinutes timeStr =
     (let p = parseTime timeStr
      in jsAdd (jsMul (toNumber (hours p)) (Fin 60)) (toNumber (minutes p)))"

definition calculateHoursSlept :: "string \<Rightarrow> string \<Rightarrow> jsnum" where
  "calculateHoursSlept bedtime wakeTime =
     (let bedMinutes = timeToMinutes bedtime;
          wakeMinutes0 = timeToMinutes wakeTime;
          wakeMinutes = (if jsLe wakeMinutes0 bedMinutes
                         then jsAdd wakeMinutes0 (Fin (24 * 60)) else wakeMinutes0);
          diffMinutes = jsSub wakeMinutes bedMinutes
      in jsDiv (jsRound (jsMul (jsDiv diffMinutes (Fin 60)) (Fin 100))) (Fin 100))"

datatype quality = Poor | Fair | Good | Great

definition qualityFromCycles :: "int \<Rightarrow> quality" where
  "qualityFromCycles cycles =
     (if cycles \<le> 2 then Poor
      else if cycles = 3 then Fair
      else if cycles = 4 then Good
      else Great)"

definition addMinutesToTime :: "string \<Rightarrow> jsnum \<Rightarrow> string" where
  "addMinutesToTime timeStr minutesToAdd =
     (let p = parseTime timeStr;
          totalMinutes =
            jsAdd (jsAdd (jsMul (toNumber (hours p)) (Fin 60)) (toNumber (minutes p))) minutesToAdd;
          wrapped = jsRem (jsAdd (jsRem totalMinutes (Fin 1440)) (Fin 1440)) (Fin 1440);
          resultHours = jsFloor (jsDiv wrapped (Fin 60));
          resultMinutes = jsRem wrapped (Fin 60)
      in padTime resultHours resultMinutes)"

definition subtractMinutesFromTime :: "string \<Rightarrow> jsnum \<Rightarrow> string" where
  "subtractMinutesFromTime timeStr minutesToSubtract =
     addMinutesToTime timeStr (jsNeg minutesToSubtract)"

definition averageTimeStr :: "string list \<Rightarrow> string" where
  "averageTimeStr timeList =
     (if length timeList = 0 then ''00:00''
      else
        let radians =
              map (\<lambda>t. jsMul (jsMul (jsDiv (timeToMinutes t) (Fin 1440)) (Fin 2)) (Fin pi))
                timeList;
            sinSum = foldl (\<lambda>acc r. jsAdd acc (jsSin r)) (Fin 0) radians;
            cosSum = foldl (\<lambda>acc r. jsAdd acc (jsCos r)) (Fin 0) radians;
            n = Fin (real (length timeList));
            avgRad0 = jsAtan2 (jsDiv sinSum n) (jsDiv cosSum n);
            avgRad = (if jsLt avgRad0 (Fin 0) then jsAdd avgRad0 (Fin (2 * pi)) else avgRad0);
            avgMinutes = jsRound (jsMul (jsDiv avgRad (Fin (2 * pi))) (Fin 1440));
            h = jsFloor (jsDiv avgMinutes (Fin 60));
            m = jsRem avgMinutes (Fin 60)
        in padTime h m)"

section \<open>Sleep-cycle calculator\<close>

definition SLEEP_CYCLE_MINUTES :: int where
  "SLEEP_CYCLE_MINUTES = 90"

definition FALL_ASLEEP_MINUTES :: int where
  "FALL_ASLEEP_MINUTES = 15"

text \<open>
  The field \<^verbatim>\<open>hours\<close> of an \<^verbatim>\<open>OptimalTime\<close> is named \<open>totalHours\<close> here, apart from the
  \<open>hours\<close> of a parsed time.
\<close>

record OptimalTime =
  time :: string
  cycles :: int
  totalHours :: jsnum
  quality :: quality

datatype mode = Bedtime | Wakeup

definition roundedHours :: "int \<Rightarrow> jsnum" where
  "roundedHours sleepMinutes =
     jsDiv (jsRound (jsMul (jsDiv (Fin (of_int sleepMinutes)) (Fin 60)) (Fin 100))) (Fin 100)"

function bedtimeLoop :: "string \<Rightarrow> int \<Rightarrow> OptimalTime list \<Rightarrow> OptimalTime list" where
  "bedtimeLoop targetTime c results =
     (if c \<ge> 1 then
        bedtimeLoop targetTime (c - 1)
          (results @
           [\<lparr>time = subtractMinutesFromTime targetTime
                     (Fin (of_int (c * SLEEP_CYCLE_MINUTES + FALL_ASLEEP_MINUTES))),
             cycles = c,
             totalHours = roundedHours (c * SLEEP_CYCLE_MINUTES),
             quality = qualityFromCycles c\<rparr>])
      else results)"
  by pat_completeness auto
termination
  by (relation "measure (\<lambda>(t, c, r). nat c)") auto

function wakeupLoop :: "string \<Rightarrow> int \<Rightarrow> OptimalTime list \<Rightarrow> OptimalTime list" where
  "wakeupLoop targetTime c results =
     (if c \<le> 6 then
        wakeupLoop targetTime (c + 1)
          (results @
           [\<lparr>time = addMinutesToTime targetTime
                     (Fin (of_int (c * SLEEP_CYCLE_MINUTES + FALL_ASLEEP_MINUTES))),
             cycles = c,
             totalHours = roundedHours (c * SLEEP_CYCLE_MINUTES),
             quality = qualityFromCycles c\<rparr>])
      else results)"
  by pat_completeness auto
termination
  by (relation "measure (\<lambda>(t, c, r). nat (7 - c))") auto

declare bedtimeLoop.simps [simp del] wakeupLoop.simps [simp del]

definition calculateOptimalTimes :: "string \<Rightarrow> mode \<Rightarrow> OptimalTime list" where
  "calculateOptimalTimes targetTime m =
     (if m = Bedtime then bedtimeLoop targetTime 6 [] else wakeupLoop targetTime 1 [])"

section \<open>Well-formed clock times\<close>

text \<open>
  A valid \<^verbatim>\<open>HH:mm\<close> string: two digits, a colon, two digits, the hour below 24 and the
  minute below 60.  \<open>clockMinutes\<close> reads its minute of the day and \<open>hhmm\<close> prints a
  minute of the day; both follow the specification's words, not a function of the source.
\<close>

definition validHHmm :: "string \<Rightarrow> bool" where
  "validHHmm s =
     (case s of
        [a, b, c, d, e] \<Rightarrow>
          isDigit a \<and> isDigit b \<and> c = CHR '':'' \<and> isDigit d \<and> isDigit e \<and>
          10 * digitVal a + digitVal b < 24 \<and> 10 * digitVal d + digitVal e < 60
      | _ \<Rightarrow> False)"

definition clockMinutes :: "string \<Rightarrow> int" where
  "clockMinutes s =
     60 * int (10 * digitVal (s ! 0) + digitVal (s ! 1)) + int (10 * digitVal (s ! 3) + digitVal (s ! 4))"

definition twoDigits :: "nat \<Rightarrow> string" where
  "twoDigits n = [digitChar (n div 10), digitChar (n mod 10)]"

definition hhmm :: "int \<Rightarrow> string" where
  "hhmm t = twoDigits (nat (t mod 1440) div 60) @ '':'' @ twoDigits (nat (t mod 1440) mod 60)"

section \<open>The clock and the calendar\<close>

text \<open>
  \<^verbatim>\<open>new Date()\<close> and the getters of a \<^verbatim>\<open>Date\<close> read the host: the current instant and the
  local time zone.  The host is a parameter of every function that reads it.  A \<^verbatim>\<open>Date\<close>
  object is its time value, in milliseconds since the epoch; the zone is a fixed offset
  from UTC (daylight-saving transitions are not modelled), and the calendar is the
  proleptic Gregorian one.
\<close>

record clock =
  nowMs :: int
  tzOffsetMs :: int

definition msPerDay :: int where
  "msPerDay = 86400000"

definition msPerHour :: int where
  "msPerHour = 3600000"

definition localDay :: "clock \<Rightarrow> int \<Rightarrow> int" where
  "localDay clk t = (t + tzOffsetMs clk) div msPerDay"

text \<open>Year, month (1 to 12) and day of the month of a day number; day 0 is 1970-01-01.\<close>

definition civilFromDays :: "int \<Rightarrow> int \<times> int \<times> int" where
  "civilFromDays z0 =
     (let z = z0 + 719468;
          era = z div 146097;
          doe = z mod 146097;
          yoe = (doe - doe div 1460 + doe div 36524 - doe div 146096) div 365;
          y = yoe + era * 400;
          doy = doe - (365 * yoe + yoe div 4 - yoe div 100);
          mp = (5 * doy + 2) div 153;
          d = doy - (153 * mp + 2) div 5 + 1;
          m = (if mp < 10 then mp + 3 else mp - 9)
      in (if m \<le> 2 then y + 1 else y, m, d))"

definition getFullYear :: "clock \<Rightarrow> int \<Rightarrow> int" where
  "getFullYear clk t = fst (civilFromDays (localDay clk t))"

definition getMonth :: "clock \<Rightarrow> int \<Rightarrow> int" where
  "getMonth clk t = fst (snd (civilFromDays (localDay clk t))) - 1"

definition getDate :: "clock \<Rightarrow> int \<Rightarrow> int" where
  "getDate clk t = snd (snd (civilFromDays (localDay clk t)))"

definition getDay :: "clock \<Rightarrow> int \<Rightarrow> int" where
  "getDay clk t = (localDay clk t + 4) mod 7"

definition getHours :: "clock \<Rightarrow> int \<Rightarrow> int" where
  "getHours clk t = ((t + tzOffsetMs clk) mod msPerDay) div msPerHour"

text \<open>
  \<^verbatim>\<open>d.setDate(v)\<close> moves \<open>d\<close> to day \<open>v\<close> of its month, counting on into the neighbouring
  months when \<open>v\<close> is not a day of the month; the local time of day stays.
\<close>

definition setDate :: "clock \<Rightarrow> int \<Rightarrow> int \<Rightarrow> int" where
  "setDate clk t v = t + (v - getDate clk t) * msPerDay"

text \<open>\<^verbatim>\<open>d.setMinutes(0, 0, 0)\<close>: the start of the local clock hour of \<open>d\<close>.\<close>

definition setMinutes0 :: "clock \<Rightarrow> int \<Rightarrow> int" where
  "setMinutes0 clk t = t - (t + tzOffsetMs clk) mod msPerHour"

text \<open>
  \<^verbatim>\<open>d.toDateString()\<close> prints the weekday, the month, the day and the year of \<open>d\<close>; the
  model keeps the four numbers.
\<close>

definition toDateString :: "clock \<Rightarrow> int \<Rightarrow> int \<times> int \<times> int \<times> int" where
  "toDateString clk t = (getDay clk t, getMonth clk t, getDate clk t, getFullYear clk t)"

definition intToString :: "int \<Rightarrow> string" where
  "intToString n = (if n < 0 then CHR ''-'' # natToString (nat (- n)) else natToString (nat n))"

text \<open>The date string that \<^verbatim>\<open>getTodayISO\<close> and \<^verbatim>\<open>calculateSleepDebt\<close> both build.\<close>

definition isoDate :: "clock \<Rightarrow> int \<Rightarrow> string" where
  "isoDate clk t =
     intToString (getFullYear clk t) @ ''-'' @
     padStart2 (intToString (getMonth clk t + 1)) @ ''-'' @
     padStart2 (intToString (getDate clk t))"

definition getTodayISO :: "clock \<Rightarrow> string" where
  "getTodayISO clk = isoDate clk (nowMs clk)"

text \<open>
  The labels of \<^verbatim>\<open>DAY_LABELS\<close> are the Korean names of the days, Sunday first; they are
  written here in Latin letters.
\<close>

datatype dayLabel = Il | Wol | Hwa | Su | Mok | Geum | To

definition DAY_LABELS :: "dayLabel list" where
  "DAY_LABELS = [Il, Wol, Hwa, Su, Mok, Geum, To]"

text \<open>The comparison of strings by \<^verbatim>\<open><=\<close> and \<^verbatim>\<open>>=\<close>: lexicographic, by code units.\<close>

fun strLt :: "string \<Rightarrow> string \<Rightarrow> bool" where
  "strLt [] [] = False"
| "strLt [] (y # ys) = True"
| "strLt (x # xs) [] = False"
| "strLt (x # xs) (y # ys) =
     ((of_char x :: nat) < of_char y \<or> (x = y \<and> strLt xs ys))"

definition strLe :: "string \<Rightarrow> string \<Rightarrow> bool" where
  "strLe a b = (a = b \<or> strLt a b)"

definition strGe :: "string \<Rightarrow> string \<Rightarrow> bool" where
  "strGe a b = strLe b a"

section \<open>Records of the application\<close>

text \<open>
  The field \<^verbatim>\<open>id\<close> is named \<open>recordId\<close> in a sleep record and \<open>entryId\<close> in a caffeine
  entry, whose field \<^verbatim>\<open>type\<close> is named \<open>kind\<close>.
\<close>

record SleepRecord =
  recordId :: string
  date :: string
  bedtime :: string
  wakeTime :: string
  hoursSlept :: jsnum

datatype caffeineType = Coffee | Espresso | Tea | Energy | Other

record CaffeineEntry =
  entryId :: string
  timestamp :: int
  amountMg :: jsnum
  kind :: caffeineType
  label :: string

definition CAFFEINE_HALF_LIFE_HOURS :: real where
  "CAFFEINE_HALF_LIFE_HOURS = 5"

section \<open>Caffeine decay\<close>

text \<open>
  The parameter \<^verbatim>\<open>atTime\<close> is optional: left out, it is \<^verbatim>\<open>new Date()\<close>.  The elapsed time
  is finite and the base of \<^verbatim>\<open>Math.pow\<close> is the constant 0.5, so the power is a real.
\<close>

definition remaining :: "int \<Rightarrow> CaffeineEntry \<Rightarrow> jsnum" where
  "remaining atMs entry =
     (let elapsedMs = atMs - timestamp entry;
          elapsedHours = real_of_int elapsedMs / (1000 * 60 * 60)
      in jsMul (amountMg entry) (Fin ((1 / 2) powr (elapsedHours / CAFFEINE_HALF_LIFE_HOURS))))"

definition calculateCaffeineLevel :: "clock \<Rightarrow> CaffeineEntry list \<Rightarrow> int option \<Rightarrow> jsnum" where
  "calculateCaffeineLevel clk entries atTime =
     (let atMs = (case atTime of None \<Rightarrow> nowMs clk | Some t \<Rightarrow> t);
          total = foldl (\<lambda>total entry.
                    if atMs - timestamp entry < 0 then total
                    else jsAdd total (remaining atMs entry)) (Fin 0) entries
      in jsDiv (jsRound (jsMul total (Fin 10))) (Fin 10))"

record TimelinePoint =
  hour :: jsnum
  level :: jsnum

definition minList :: "int list \<Rightarrow> int" where
  "minList xs = foldl min (hd xs) (tl xs)"

function timelineLoop ::
  "clock \<Rightarrow> CaffeineEntry list \<Rightarrow> int \<Rightarrow> int \<Rightarrow> TimelinePoint list \<Rightarrow> TimelinePoint list" where
  "timelineLoop clk entries startTime i timeline =
     (if i < 49 then
        timelineLoop clk entries startTime (i + 1)
          (timeline @
           [\<lparr>hour = jsDiv (jsRound (jsMul (Fin (of_int i * 0.5)) (Fin 100))) (Fin 100),
             level = jsDiv (jsRound (jsMul
                       (calculateCaffeineLevel clk entries (Some (startTime + i * 30 * 60 * 1000)))
                       (Fin 10))) (Fin 10)\<rparr>])
      else timeline)"
  by pat_completeness auto
termination
  by (relation "measure (\<lambda>(clk, es, s, i, tl). nat (49 - i))") auto

declare timelineLoop.simps [simp del]

definition calculateCaffeineTimeline :: "clock \<Rightarrow> CaffeineEntry list \<Rightarrow> TimelinePoint list" where
  "calculateCaffeineTimeline clk entries =
     (if length entries = 0 then []
      else
        let earliestTs = minList (map timestamp entries);
            startTime = setMinutes0 clk earliestTs
        in timelineLoop clk entries startTime 0 [])"

section \<open>Sleep debt\<close>

text \<open>The field \<^verbatim>\<open>hours\<close> of a day is named \<open>dayHours\<close>.\<close>

record DayDebt =
  day :: string
  dayLabel :: dayLabel
  dayHours :: jsnum
  debt :: jsnum

record SleepDebtResult =
  daily :: "DayDebt list"
  totalDebt :: jsnum
  avgHours :: jsnum

definition debtDay :: "clock \<Rightarrow> SleepRecord list \<Rightarrow> jsnum \<Rightarrow> int \<Rightarrow> DayDebt" where
  "debtDay clk records recommendedHours i =
     (let today = nowMs clk;
          d = setDate clk today (getDate clk today - i);
          dateStr = isoDate clk d;
          lbl = DAY_LABELS ! nat (getDay clk d);
          hrs = (case find (\<lambda>r. date r = dateStr) records of
                   Some r \<Rightarrow> hoursSlept r
                 | None \<Rightarrow> Fin 0);
          dbt = jsMax (Fin 0) (jsSub recommendedHours hrs)
      in \<lparr>day = dateStr, dayLabel = lbl, dayHours = hrs, debt = dbt\<rparr>)"

function last7DaysLoop ::
  "clock \<Rightarrow> SleepRecord list \<Rightarrow> jsnum \<Rightarrow> int \<Rightarrow> DayDebt list \<Rightarrow> DayDebt list" where
  "last7DaysLoop clk records recommendedHours i last7Days =
     (if i \<ge> 0 then
        last7DaysLoop clk records recommendedHours (i - 1)
          (last7Days @ [debtDay clk records recommendedHours i])
      else last7Days)"
  by pat_completeness auto
termination
  by (relation "measure (\<lambda>(clk, rs, h, i, l). nat (i + 1))") auto

declare last7DaysLoop.simps [simp del]

definition round2 :: "jsnum \<Rightarrow> jsnum" where
  "round2 x = jsDiv (jsRound (jsMul x (Fin 100))) (Fin 100)"

definition calculateSleepDebt :: "clock \<Rightarrow> SleepRecord list \<Rightarrow> jsnum \<Rightarrow> SleepDebtResult" where
  "calculateSleepDebt clk records recommendedHours =
     (let last7Days = last7DaysLoop clk records recommendedHours 6 [];
          total = foldl (\<lambda>acc d. jsAdd acc (debt d)) (Fin 0) last7Days;
          daysWithRecords = filter (\<lambda>d. jsGt (dayHours d) (Fin 0)) last7Days;
          avg = (if length daysWithRecords > 0
                 then round2 (jsDiv (foldl (\<lambda>acc d. jsAdd acc (dayHours d)) (Fin 0) daysWithRecords)
                                (Fin (real (length daysWithRecords))))
                 else Fin 0)
      in \<lparr>daily = last7Days, totalDebt = round2 total, avgHours = avg\<rparr>)"

section \<open>Tips\<close>

text \<open>
  The title and the description of a tip are Korean sentences.  \<open>title\<close> names the
  sentence, and \<open>description\<close> lists the numbers that the description interpolates, in
  order: the result of \<^verbatim>\<open>Math.round\<close> where the source rounds, and the number itself
  where the source prints it with \<^verbatim>\<open>toFixed(1)\<close>.
\<close>

datatype tipTitle =
  CaffeineHigh | CaffeineModerate | DebtSevere | DebtModerate | ShortSleep
| RegularBedtime | LateCaffeine | BlueLight | RoomTemperature | SleepVariance
| RegularExercise | MealTiming

record SleepTip =
  icon :: string
  title :: tipTitle
  description :: "jsnum list"

record SleepStats =
  totalRecords :: jsnum
  avgHoursThisWeek :: jsnum
  totalDebtHours :: jsnum
  longestSleep :: jsnum
  shortestSleep :: jsnum
  avgBedtime :: string
  avgWakeTime :: string
  currentCaffeineMg :: jsnum

definition eveningEntries :: "clock \<Rightarrow> CaffeineEntry list \<Rightarrow> CaffeineEntry list" where
  "eveningEntries clk caffeineEntries =
     filter (\<lambda>entry.
        toDateString clk (timestamp entry) = toDateString clk (nowMs clk) \<and>
        getHours clk (timestamp entry) \<ge> 16) caffeineEntries"

definition allTips :: "clock \<Rightarrow> SleepStats \<Rightarrow> CaffeineEntry list \<Rightarrow> SleepTip list" where
  "allTips clk stats caffeineEntries =
     (let tips0 = [];
          tips1 =
            (if jsGt (currentCaffeineMg stats) (Fin 200) then
               tips0 @ [\<lparr>icon = ''ri-cup-line'', title = CaffeineHigh,
                          description = [jsRound (currentCaffeineMg stats)]\<rparr>]
             else if jsGt (currentCaffeineMg stats) (Fin 100) then
               tips0 @ [\<lparr>icon = ''ri-cup-line'', title = CaffeineModerate,
                          description = [jsRound (currentCaffeineMg stats)]\<rparr>]
             else tips0);
          tips2 =
            (if jsGt (totalDebtHours stats) (Fin 10) then
               tips1 @ [\<lparr>icon = ''ri-error-warning-line'', title = DebtSevere,
                          description = [jsRound (totalDebtHours stats)]\<rparr>]
             else if jsGt (totalDebtHours stats) (Fin 5) then
               tips1 @ [\<lparr>icon = ''ri-alarm-warning-line'', title = DebtModerate,
                          description = [jsRound (totalDebtHours stats)]\<rparr>]
             else tips1);
          tips3 =
            (if jsGt (avgHoursThisWeek stats) (Fin 0) \<and> jsLt (avgHoursThisWeek stats) (Fin 6) then
               tips2 @ [\<lparr>icon = ''ri-moon-foggy-line'', title = ShortSleep,
                          description = [avgHoursThisWeek stats]\<rparr>]
             else tips2);
          tips4 =
            (if jsGe (totalRecords stats) (Fin 3) then
               tips3 @ [\<lparr>icon = ''ri-time-line'', title = RegularBedtime, description = []\<rparr>]
             else tips3);
          tips5 =
            (if length (eveningEntries clk caffeineEntries) > 0 then
               tips4 @ [\<lparr>icon = ''ri-forbid-line'', title = LateCaffeine, description = []\<rparr>]
             else tips4);
          tips6 = tips5 @ [\<lparr>icon = ''ri-smartphone-line'', title = BlueLight, description = []\<rparr>];
          tips7 = tips6 @ [\<lparr>icon = ''ri-temp-cold-line'', title = RoomTemperature, description = []\<rparr>];
          tips8 =
            (if jsGt (jsSub (longestSleep stats) (shortestSleep stats)) (Fin 3) \<and>
                jsGt (shortestSleep stats) (Fin 0) then
               tips7 @ [\<lparr>icon = ''ri-bar-chart-line'', title = SleepVariance,
                          description = [longestSleep stats, shortestSleep stats]\<rparr>]
             else tips7);
          tips9 = tips8 @ [\<lparr>icon = ''ri-run-line'', title = RegularExercise, description = []\<rparr>];
          tips10 = tips9 @ [\<lparr>icon = ''ri-restaurant-line'', title = MealTiming, description = []\<rparr>]
      in tips10)"

text \<open>\<^verbatim>\<open>generateSleepTips\<close> returns \<^verbatim>\<open>tips.slice(0, 8)\<close> of the list it has built.\<close>

definition generateSleepTips :: "clock \<Rightarrow> SleepStats \<Rightarrow> CaffeineEntry list \<Rightarrow> SleepTip list" where
  "generateSleepTips clk stats caffeineEntries = take 8 (allTips clk stats caffeineEntries)"

section \<open>The state of the hook\<close>

text \<open>
  \<^verbatim>\<open>addSleepRecord\<close> appends one record to the list of the hook; the identifier comes from
  \<^verbatim>\<open>nanoid()\<close> and is a parameter here.
\<close>

definition addSleepRecord ::
  "string \<Rightarrow> string \<Rightarrow> string \<Rightarrow> string \<Rightarrow> SleepRecord list \<Rightarrow> SleepRecord list" where
  "addSleepRecord newId recDate recBedtime recWakeTime prev =
     prev @ [\<lparr>recordId = newId, date = recDate, bedtime = recBedtime, wakeTime = recWakeTime,
              hoursSlept = calculateHoursSlept recBedtime recWakeTime\<rparr>]"

definition removeSleepRecord :: "string \<Rightarrow> SleepRecord list \<Rightarrow> SleepRecord list" where
  "removeSleepRecord i prev = filter (\<lambda>r. recordId r \<noteq> i) prev"

text \<open>The records that the memo \<^verbatim>\<open>stats\<close> averages, and their average.\<close>

definition weekRecords :: "clock \<Rightarrow> SleepRecord list \<Rightarrow> SleepRecord list" where
  "weekRecords clk sleepRecords =
     (let now = nowMs clk;
          today = getTodayISO clk;
          sevenDaysAgo = setDate clk now (getDate clk now - 7);
          sevenDaysAgoISO = isoDate clk sevenDaysAgo
      in filter (\<lambda>r. strGe (date r) sevenDaysAgoISO \<and> strLe (date r) today) sleepRecords)"

definition weekAverage :: "clock \<Rightarrow> SleepRecord list \<Rightarrow> jsnum" where
  "weekAverage clk sleepRecords =
     (let wr = weekRecords clk sleepRecords
      in if length wr > 0
         then round2 (jsDiv (foldl (\<lambda>acc r. jsAdd acc (hoursSlept r)) (Fin 0) wr)
                        (Fin (real (length wr))))
         else Fin 0)"

definition stats ::
  "clock \<Rightarrow> SleepRecord list \<Rightarrow> CaffeineEntry list \<Rightarrow> jsnum \<Rightarrow> SleepStats" where
  "stats clk sleepRecords caffeineEntries recommendedHours =
     (let debtResult = calculateSleepDebt clk sleepRecords recommendedHours;
          allHours = map hoursSlept sleepRecords
      in \<lparr>totalRecords = Fin (real (length sleepRecords)),
          avgHoursThisWeek = weekAverage clk sleepRecords,
          totalDebtHours = totalDebt debtResult,
          longestSleep = (if length allHours > 0 then foldl jsMax NInf allHours else Fin 0),
          shortestSleep = (if length allHours > 0 then foldl jsMin PInf allHours else Fin 0),
          avgBedtime = (if length sleepRecords > 0
                        then averageTimeStr (map bedtime sleepRecords) else ''00:00''),
          avgWakeTime = (if length sleepRecords > 0
                         then averageTimeStr (map wakeTime sleepRecords) else ''00:00''),
          currentCaffeineMg = calculateCaffeineLevel clk caffeineEntries (Some (nowMs clk))\<rparr>)"

text \<open>
  The minutes between a bedtime and a wake time, in the specification's words: the
  difference of the two clock times, plus 1440 when it is not positive.
\<close>

definition elapsedMinutes :: "string \<Rightarrow> string \<Rightarrow> int" where
  "elapsedMinutes b w =
     (if clockMinutes w - clockMinutes b \<le> 0 then clockMinutes w - clockMinutes b + 1440
      else clockMinutes w - clockMinutes b)"

text \<open>A record as \<^verbatim>\<open>addSleepRecord\<close> creates it from two valid clock times.\<close>

definition createdByAdd :: "SleepRecord \<Rightarrow> bool" where
  "createdByAdd r =
     (validHHmm (bedtime r) \<and> validHHmm (wakeTime r) \<and>
      hoursSlept r = calculateHoursSlept (bedtime r) (wakeTime r))"

text \<open>The date string of a day number, as the specification writes a calendar date.\<close>

definition dayString :: "int \<Rightarrow> string" where
  "dayString n =
     (case civilFromDays n of
        (y, m, d) \<Rightarrow>
          intToString y @ ''-'' @ padStart2 (intToString m) @ ''-'' @ padStart2 (intToString d))"

text \<open>The real that a finite number stands for.\<close>

fun realOf :: "jsnum \<Rightarrow> real" where
  "realOf (Fin a) = a"
| "realOf x = 0"

definition isFin :: "jsnum \<Rightarrow> bool" where
  "isFin x = (case x of Fin a \<Rightarrow> True | _ \<Rightarrow> False)"

text \<open>
  \<^verbatim>\<open>parseTime\<close> in the specification's words: a string of exactly two numeric components
  separated by a colon gives the two integers, any other string fails with \<open>InvalidFormat\<close>.
  A numeric component is a non-empty run of decimal digits.
\<close>

datatype error = InvalidFormat | OutOfRange

definition numericComponent :: "string \<Rightarrow> bool" where
  "numericComponent c = (c \<noteq> [] \<and> list_all isDigit c)"

definition twoNumericComponents :: "string \<Rightarrow> bool" where
  "twoNumericComponents s =
     (case splitOn CHR '':'' s of
        [a, b] \<Rightarrow> numericComponent a \<and> numericComponent b
      | _ \<Rightarrow> False)"

definition parseTimeSpec :: "string \<Rightarrow> error + parsedTime" where
  "parseTimeSpec s =
     (case splitOn CHR '':'' s of
        [a, b] \<Rightarrow>
          if numericComponent a \<and> numericComponent b
          then Inr \<lparr>hours = Some (Fin (real (digitsVal a))), minutes = Some (Fin (real (digitsVal b)))\<rparr>
          else Inl InvalidFormat
      | _ \<Rightarrow> Inl InvalidFormat)"

text \<open>
  The rule cascade of the tip engine in the specification's words: the order of the
  rules, and the condition under which each rule adds its tip.
\<close>

definition cascadeOrder :: "tipTitle list" where
  "cascadeOrder =
     [CaffeineHigh, CaffeineModerate, DebtSevere, DebtModerate, ShortSleep, RegularBedtime,
      LateCaffeine, BlueLight, RoomTemperature, SleepVariance, RegularExercise, MealTiming]"

definition tipApplies :: "clock \<Rightarrow> SleepStats \<Rightarrow> CaffeineEntry list \<Rightarrow> tipTitle \<Rightarrow> bool" where
  "tipApplies clk st es t =
     (case t of
        CaffeineHigh \<Rightarrow> jsGt (currentCaffeineMg st) (Fin 200)
      | CaffeineModerate \<Rightarrow>
          \<not> jsGt (currentCaffeineMg st) (Fin 200) \<and> jsGt (currentCaffeineMg st) (Fin 100)
      | DebtSevere \<Rightarrow> jsGt (totalDebtHours st) (Fin 10)
      | DebtModerate \<Rightarrow> \<not> jsGt (totalDebtHours st) (Fin 10) \<and> jsGt (totalDebtHours st) (Fin 5)
      | ShortSleep \<Rightarrow> jsGt (avgHoursThisWeek st) (Fin 0) \<and> jsLt (avgHoursThisWeek st) (Fin 6)
      | RegularBedtime \<Rightarrow> jsGe (totalRecords st) (Fin 3)
      | LateCaffeine \<Rightarrow> eveningEntries clk es \<noteq> []
      | BlueLight \<Rightarrow> True
      | RoomTemperature \<Rightarrow> True
      | SleepVariance \<Rightarrow>
          jsGt (jsSub (longestSleep st) (shortestSleep st)) (Fin 3) \<and> jsGt (shortestSleep st) (Fin 0)
      | RegularExercise \<Rightarrow> True
      | MealTiming \<Rightarrow> True)"

text \<open>
  The caffeine that one entry leaves at an instant, in the specification's words: nothing
  for an intake after the instant, otherwise the amount halved every five hours.
\<close>

definition residual :: "int \<Rightarrow> CaffeineEntry \<Rightarrow> real" where
  "residual atMs e =
     (if atMs < timestamp e then 0
      else realOf (amountMg e) * (1 / 2) powr (real_of_int (atMs - timestamp e) / 3600000 / 5))"

text \<open>The point that the loop of \<^verbatim>\<open>calculateCaffeineTimeline\<close> pushes at index \<open>i\<close>.\<close>

definition timelinePoint :: "clock \<Rightarrow> CaffeineEntry list \<Rightarrow> int \<Rightarrow> int \<Rightarrow> TimelinePoint" where
  "timelinePoint clk es st i =
     \<lparr>hour = jsDiv (jsRound (jsMul (Fin (of_int i * 0.5)) (Fin 100))) (Fin 100),
      level = jsDiv (jsRound (jsMul
                (calculateCaffeineLevel clk es (Some (st + i * 30 * 60 * 1000)))
                (Fin 10))) (Fin 10)\<rparr>"


text \<open>
  The last steps of \<^verbatim>\<open>averageTimeStr\<close>, named so that they can be stated on their own:
  \<open>timeOfAngle\<close> is what the function does with the result of \<^verbatim>\<open>Math.atan2\<close> (the
  shift of a negative angle by \<open>2\<pi>\<close>, the scaling to minutes and the rounding), and
  \<open>timeOfMinutes\<close> what it does with the rounded minute.
\<close>

definition timeOfMinutes :: "jsnum \<Rightarrow> string" where
  "timeOfMinutes avgMinutes =
     padTime (jsFloor (jsDiv avgMinutes (Fin 60))) (jsRem avgMinutes (Fin 60))"

definition timeOfAngle :: "jsnum \<Rightarrow> string" where
  "timeOfAngle avgRad0 =
     (let avgRad = (if jsLt avgRad0 (Fin 0) then jsAdd avgRad0 (Fin (2 * pi)) else avgRad0)
      in timeOfMinutes (jsRound (jsMul (jsDiv avgRad (Fin (2 * pi))) (Fin 1440))))"

section \<open>Example data\<close>

text \<open>
  A host in a zone nine hours ahead of UTC, at 09:30 local time on Saturday 2 March 2024,
  and the same host one day later.
\<close>

definition clk0 :: clock where
  "clk0 = \<lparr>nowMs = 1709339400000, tzOffsetMs = 32400000\<rparr>"

definition clk1 :: clock where
  "clk1 = \<lparr>nowMs = 1709425800000, tzOffsetMs = 32400000\<rparr>"

definition recs0 :: "SleepRecord list" where
  "recs0 = addSleepRecord ''r1'' ''2024-03-02'' ''23:00'' ''07:00'' []"

text \<open>The same host at 20:00 local time, an entry logged at 17:00, and statistics that fire every rule.\<close>

definition clkEvening :: clock where
  "clkEvening = \<lparr>nowMs = 1709377200000, tzOffsetMs = 32400000\<rparr>"

definition statsAll :: SleepStats where
  "statsAll =
     \<lparr>totalRecords = Fin 3, avgHoursThisWeek = Fin 5, totalDebtHours = Fin 12,
      longestSleep = Fin 9, shortestSleep = Fin 4, avgBedtime = ''23:30'', avgWakeTime = ''06:30'',
      currentCaffeineMg = Fin 250\<rparr>"

definition mkRecord :: "string \<Rightarrow> string \<Rightarrow> real \<Rightarrow> SleepRecord" where
  "mkRecord i d h =
     \<lparr>recordId = i, date = d, bedtime = ''23:00'', wakeTime = ''07:00'', hoursSlept = Fin h\<rparr>"

definition recs3 :: "SleepRecord list" where
  "recs3 = [mkRecord ''a'' ''2024-03-02'' 1, mkRecord ''b'' ''2024-03-01'' 1,
            mkRecord ''c'' ''2024-02-29'' 2]"

text \<open>A record dated seven days before the day of \<open>clk0\<close>, and records of the last two days.\<close>

definition recsOld :: "SleepRecord list" where
  "recsOld = [mkRecord ''old'' ''2024-02-24'' 4]"

definition recsZero :: "SleepRecord list" where
  "recsZero = [mkRecord ''a'' ''2024-03-02'' 0, mkRecord ''b'' ''2024-03-01'' 6]"

definition mkEntry :: "string \<Rightarrow> int \<Rightarrow> real \<Rightarrow> CaffeineEntry" where
  "mkEntry i t a =
     \<lparr>entryId = i, timestamp = t, amountMg = Fin a, kind = Coffee, label = ''coffee''\<rparr>"

section \<open>Properties of the time utilities\<close>

lemma parseTime_hours_defined: "hours (parseTime s) \<noteq> None"
  by (cases s) (simp_all add: parseTime_def nthOpt_def Let_def)

lemma digit_facts:
  assumes "isDigit c"
  shows "\<not> isWhite c" "c \<noteq> CHR '':''" "c \<noteq> CHR ''-''" "c \<noteq> CHR ''+''" "c \<noteq> CHR ''x''" "c \<noteq> CHR ''X''"
    "c \<noteq> CHR ''o''" "c \<noteq> CHR ''O''" "c \<noteq> CHR ''b''" "c \<noteq> CHR ''B''" "c \<noteq> CHR ''I''" "c \<noteq> CHR ''n''"
  using assms by (auto simp: isDigit_def isWhite_def)

lemma jsNumber_two_digits:
  assumes "isDigit a" "isDigit b"
  shows "jsNumber [a, b] = Fin (real (10 * digitVal a + digitVal b))"
  using assms digit_facts[OF assms(1)] digit_facts[OF assms(2)]
  by (simp add: jsNumber_def trim_def strDecimal_def unsignedDecimal_def exponentPart_def digitsVal_def Let_def)

lemma splitOn_hhmm:
  assumes "isDigit a" "isDigit b" "isDigit d" "isDigit e"
  shows "splitOn CHR '':'' [a, b, CHR '':'', d, e] = [[a, b], [d, e]]"
  using digit_facts(2)[OF assms(1)] digit_facts(2)[OF assms(2)] digit_facts(2)[OF assms(3)] digit_facts(2)[OF assms(4)]
  by simp

lemma validHHmm_cases:
  assumes "validHHmm s"
  obtains a b d e where "s = [a, b, CHR '':'', d, e]" "isDigit a" "isDigit b" "isDigit d" "isDigit e"
    "10 * digitVal a + digitVal b < 24" "10 * digitVal d + digitVal e < 60"
  using assms unfolding validHHmm_def
  by (auto split: list.splits)

lemma parseTime_valid:
  assumes "validHHmm s"
  shows "parseTime s = \<lparr>hours = Some (Fin (real (10 * digitVal (s ! 0) + digitVal (s ! 1)))),
                        minutes = Some (Fin (real (10 * digitVal (s ! 3) + digitVal (s ! 4))))\<rparr>"
proof -
  from assms obtain a b d e where s: "s = [a, b, CHR '':'', d, e]"
    and dg: "isDigit a" "isDigit b" "isDigit d" "isDigit e"
    by (rule validHHmm_cases)
  have sp: "splitOn CHR '':'' s = [[a, b], [d, e]]"
    unfolding s using dg by (rule splitOn_hhmm)
  show ?thesis
    unfolding parseTime_def sp
    by (simp add: nthOpt_def jsNumber_two_digits dg s)
qed

lemma timeToMinutes_valid:
  assumes "validHHmm s"
  shows "timeToMinutes s = Fin (of_int (clockMinutes s))"
  by (simp add: timeToMinutes_def parseTime_valid[OF assms] clockMinutes_def)

lemma clockMinutes_range:
  assumes "validHHmm s"
  shows "0 \<le> clockMinutes s" "clockMinutes s < 1440"
  using assms by (auto elim!: validHHmm_cases simp: clockMinutes_def)

lemma jsRem_of_int:
  assumes "0 < b"
  shows "jsRem (Fin (of_int a)) (Fin (of_int b)) =
         Fin (of_int (if 0 \<le> a then a mod b else - ((- a) mod b)))"
proof (cases "0 \<le> a")
  case True
  then have "(0::real) \<le> of_int a / of_int b" using assms by simp
  then have "jsTrunc (of_int a / of_int b) = a div b"
    by (simp add: jsTrunc_def floor_divide_of_int_eq)
  moreover have "real_of_int a - real_of_int b * real_of_int (a div b) = real_of_int (a mod b)"
    by (metis minus_mult_div_eq_mod of_int_diff of_int_mult)
  ultimately show ?thesis using True assms by simp
next
  case False
  then have neg: "a < 0" by simp
  then have "\<not> (0::real) \<le> of_int a / of_int b" using assms by (simp add: divide_less_0_iff not_le)
  then have "jsTrunc (of_int a / of_int b) = \<lceil>real_of_int a / of_int b\<rceil>"
    by (simp add: jsTrunc_def)
  also have "\<dots> = - \<lfloor>real_of_int (- a) / of_int b\<rfloor>"
    by (simp add: ceiling_def)
  also have "\<dots> = - ((- a) div b)"
    by (simp only: floor_divide_of_int_eq)
  finally have t: "jsTrunc (of_int a / of_int b) = - ((- a) div b)" .
  have "real_of_int a - real_of_int b * real_of_int (- ((- a) div b)) = real_of_int (- ((- a) mod b))"
  proof -
    have "a - b * (- ((- a) div b)) = - ((- a) mod b)"
      by (smt (verit) minus_mult_div_eq_mod mult_minus_right)
    then show ?thesis by (metis of_int_diff of_int_mult)
  qed
  then show ?thesis using False assms t by simp
qed

lemma wrap1440:
  fixes T :: int
  defines "r \<equiv> (if 0 \<le> T then T mod 1440 else - ((- T) mod 1440))"
  shows "(if 0 \<le> r + 1440 then (r + 1440) mod 1440 else - ((- (r + 1440)) mod 1440)) = T mod 1440"
proof -
  have b1: "0 \<le> T mod 1440" by simp
  have b2: "(- T) mod 1440 < 1440" by simp
  have "0 \<le> r + 1440" unfolding r_def using b1 b2 by (cases "0 \<le> T") simp_all
  moreover have "(r + 1440) mod 1440 = T mod 1440"
  proof (cases "0 \<le> T")
    case True
    then show ?thesis by (simp add: r_def)
  next
    case False
    then have "r = - ((- T) mod 1440)" by (simp add: r_def)
    then have "(r + 1440) mod 1440 = (- ((- T) mod 1440)) mod 1440" by simp
    also have "\<dots> = (- (- T)) mod 1440" by (rule mod_minus_eq)
    finally show ?thesis by simp
  qed
  ultimately show ?thesis by simp
qed

lemma jsRem_1440: "jsRem (Fin (of_int a)) (Fin 1440) = Fin (of_int (if 0 \<le> a then a mod 1440 else - ((- a) mod 1440)))"
  using jsRem_of_int[of 1440 a] by simp

lemma jsRem_60: "jsRem (Fin (of_int a)) (Fin 60) = Fin (of_int (if 0 \<le> a then a mod 60 else - ((- a) mod 60)))"
  using jsRem_of_int[of 60 a] by simp

lemma jsRem_24: "jsRem (Fin (of_int a)) (Fin 24) = Fin (of_int (if 0 \<le> a then a mod 24 else - ((- a) mod 24)))"
  using jsRem_of_int[of 24 a] by simp

lemma wrapped_minutes:
  "jsRem (jsAdd (jsRem (Fin (of_int T)) (Fin 1440)) (Fin 1440)) (Fin 1440) = Fin (of_int (T mod 1440))"
proof -
  define r where "r = (if 0 \<le> T then T mod 1440 else - ((- T) mod 1440))"
  have "jsAdd (jsRem (Fin (of_int T)) (Fin 1440)) (Fin 1440) = Fin (of_int (r + 1440))"
    by (simp add: jsRem_1440 r_def del: jsRem.simps)
  then have "jsRem (jsAdd (jsRem (Fin (of_int T)) (Fin 1440)) (Fin 1440)) (Fin 1440)
      = Fin (of_int (if 0 \<le> r + 1440 then (r + 1440) mod 1440 else - ((- (r + 1440)) mod 1440)))"
    by (simp only: jsRem_1440)
  also have "\<dots> = Fin (of_int (T mod 1440))"
    unfolding r_def by (simp only: wrap1440)
  finally show ?thesis .
qed

lemma natToString_small: "n < 100 \<Longrightarrow> padStart2 (natToString n) = twoDigits n"
  by (cases "n < 10") (simp_all add: natToString.simps[of n] natToString.simps[of "n div 10"] padStart2_def twoDigits_def digitChar_def)

lemma numToString_of_nat: "n < 100 \<Longrightarrow> numToString (Fin (real n)) = natToString n"
proof -
  assume "n < 100"
  then have "real n < 100" by simp
  then have "\<bar>real n\<bar> < 10 ^ 21" by simp
  then show ?thesis by simp
qed

lemma padTime_clock:
  assumes "h < 24" "m < 60"
  shows "padTime (Fin (real h)) (Fin (real m)) = twoDigits h @ '':'' @ twoDigits m"
proof -
  have "jsRem (Fin (real h)) (Fin 24) = Fin (real h)"
    using jsRem_24[of "int h"] assms by (simp del: jsRem.simps)
  then have "jsAdd (jsRem (Fin (real h)) (Fin 24)) (Fin 24) = Fin (of_int (int h + 24))"
    by (simp del: jsRem.simps)
  moreover have "jsRem (Fin (of_int (int h + 24))) (Fin 24) = Fin (real h)"
    using assms by (simp only: jsRem_24) simp
  ultimately have "jsRem (jsAdd (jsRem (Fin (real h)) (Fin 24)) (Fin 24)) (Fin 24) = Fin (real h)"
    by (simp del: jsRem.simps)
  then show ?thesis
    using assms by (simp add: padTime_def numToString_of_nat natToString_small del: numToString.simps jsRem.simps)
qed

lemma addMinutesToTime_valid:
  assumes "validHHmm s"
  shows "addMinutesToTime s (Fin (of_int k)) = hhmm (clockMinutes s + k)"
proof -
  define T where "T = clockMinutes s + k"
  define M where "M = nat (T mod 1440)"
  have M: "M < 1440" "int M = T mod 1440" by (simp_all add: M_def)
  have tot: "jsAdd (jsAdd (jsMul (toNumber (hours (parseTime s))) (Fin 60)) (toNumber (minutes (parseTime s)))) (Fin (of_int k))
      = Fin (of_int T)"
    by (simp add: parseTime_valid[OF assms] clockMinutes_def T_def)
  have w: "jsRem (jsAdd (jsRem (Fin (of_int T)) (Fin 1440)) (Fin 1440)) (Fin 1440) = Fin (real M)"
  proof -
    have "real_of_int (T mod 1440) = real M" using M(2) by (metis of_int_of_nat_eq)
    then show ?thesis by (simp add: wrapped_minutes del: jsRem.simps)
  qed
  have hh: "jsFloor (jsDiv (Fin (real M)) (Fin 60)) = Fin (real (M div 60))"
  proof -
    have "\<lfloor>real M / 60\<rfloor> = int (M div 60)"
      using floor_divide_of_nat_eq[of M 60] by simp
    then show ?thesis by simp
  qed
  have mm: "jsRem (Fin (real M)) (Fin 60) = Fin (real (M mod 60))"
  proof -
    have "int M mod 60 = int (M mod 60)" by (simp add: zmod_int)
    then have "real_of_int (int M mod 60) = real (M mod 60)" by (metis of_int_of_nat_eq)
    then show ?thesis using jsRem_60[of "int M"] by (simp del: jsRem.simps)
  qed
  have "addMinutesToTime s (Fin (of_int k)) = padTime (Fin (real (M div 60))) (Fin (real (M mod 60)))"
    unfolding addMinutesToTime_def Let_def tot w hh mm ..
  also have "\<dots> = twoDigits (M div 60) @ '':'' @ twoDigits (M mod 60)"
    using M by (intro padTime_clock) auto
  finally show ?thesis by (simp add: hhmm_def T_def M_def)
qed

lemma isDigit_cases:
  assumes "isDigit a"
  shows "a \<in> set ''0123456789''"
proof -
  define m where "m = (of_char a :: nat) - 48"
  have d: "48 \<le> (of_char a :: nat)" "(of_char a :: nat) \<le> 57"
    using assms by (simp_all add: isDigit_def)
  have n: "(of_char a :: nat) = 48 + m" unfolding m_def using d by linarith
  then have a: "a = char_of (48 + m)" by (metis char_of_char)
  have "m < 10" unfolding m_def using d by linarith
  then have "m \<in> {0,1,2,3,4,5,6,7,8,9}"
    by (simp add: numeral_eq_Suc less_Suc_eq)
  then have "a \<in> {char_of (48::nat), char_of (49::nat), char_of (50::nat), char_of (51::nat), char_of (52::nat),
     char_of (53::nat), char_of (54::nat), char_of (55::nat), char_of (56::nat), char_of (57::nat)}"
    unfolding a by auto
  moreover have "char_of (48::nat) = CHR ''0''" "char_of (49::nat) = CHR ''1''" "char_of (50::nat) = CHR ''2''"
    "char_of (51::nat) = CHR ''3''" "char_of (52::nat) = CHR ''4''" "char_of (53::nat) = CHR ''5''"
    "char_of (54::nat) = CHR ''6''" "char_of (55::nat) = CHR ''7''" "char_of (56::nat) = CHR ''8''"
    "char_of (57::nat) = CHR ''9''"
    using char_of_char[of "CHR ''0''", where ?'a = nat] char_of_char[of "CHR ''1''", where ?'a = nat]
      char_of_char[of "CHR ''2''", where ?'a = nat] char_of_char[of "CHR ''3''", where ?'a = nat]
      char_of_char[of "CHR ''4''", where ?'a = nat] char_of_char[of "CHR ''5''", where ?'a = nat]
      char_of_char[of "CHR ''6''", where ?'a = nat] char_of_char[of "CHR ''7''", where ?'a = nat]
      char_of_char[of "CHR ''8''", where ?'a = nat] char_of_char[of "CHR ''9''", where ?'a = nat]
    by simp_all
  ultimately show ?thesis by simp
qed


lemma digitChar_digitVal: "isDigit a \<Longrightarrow> digitChar (digitVal a) = a"
  by (drule isDigit_cases) (auto simp: digitChar_def digitVal_def)

lemma addMinutes_numeral:
  "validHHmm t \<Longrightarrow> addMinutesToTime t (Fin (numeral n)) = hhmm (clockMinutes t + numeral n)"
  using addMinutesToTime_valid[of t "numeral n"] by simp

lemma subtractMinutes_numeral:
  "validHHmm t \<Longrightarrow> subtractMinutesFromTime t (Fin (numeral n)) = hhmm (clockMinutes t - numeral n)"
  using addMinutesToTime_valid[of t "- numeral n"] by (simp add: subtractMinutesFromTime_def)

lemma roundedHours_values:
  "roundedHours 540 = Fin 9" "roundedHours 450 = Fin 7.5" "roundedHours 360 = Fin 6"
  "roundedHours 270 = Fin 4.5" "roundedHours 180 = Fin 3" "roundedHours 90 = Fin 1.5"
  by (simp_all add: roundedHours_def)

lemma bedtime_candidates:
  assumes "validHHmm t"
  shows "calculateOptimalTimes t Bedtime =
    [\<lparr>time = hhmm (clockMinutes t - 555), cycles = 6, totalHours = Fin 9, quality = Great\<rparr>,
     \<lparr>time = hhmm (clockMinutes t - 465), cycles = 5, totalHours = Fin 7.5, quality = Great\<rparr>,
     \<lparr>time = hhmm (clockMinutes t - 375), cycles = 4, totalHours = Fin 6, quality = Good\<rparr>,
     \<lparr>time = hhmm (clockMinutes t - 285), cycles = 3, totalHours = Fin 4.5, quality = Fair\<rparr>,
     \<lparr>time = hhmm (clockMinutes t - 195), cycles = 2, totalHours = Fin 3, quality = Poor\<rparr>,
     \<lparr>time = hhmm (clockMinutes t - 105), cycles = 1, totalHours = Fin 1.5, quality = Poor\<rparr>]"
  by (simp add: calculateOptimalTimes_def bedtimeLoop.simps SLEEP_CYCLE_MINUTES_def
      FALL_ASLEEP_MINUTES_def qualityFromCycles_def roundedHours_values
      subtractMinutes_numeral[OF assms])

lemma wakeup_candidates:
  assumes "validHHmm t"
  shows "calculateOptimalTimes t Wakeup =
    [\<lparr>time = hhmm (clockMinutes t + 105), cycles = 1, totalHours = Fin 1.5, quality = Poor\<rparr>,
     \<lparr>time = hhmm (clockMinutes t + 195), cycles = 2, totalHours = Fin 3, quality = Poor\<rparr>,
     \<lparr>time = hhmm (clockMinutes t + 285), cycles = 3, totalHours = Fin 4.5, quality = Fair\<rparr>,
     \<lparr>time = hhmm (clockMinutes t + 375), cycles = 4, totalHours = Fin 6, quality = Good\<rparr>,
     \<lparr>time = hhmm (clockMinutes t + 465), cycles = 5, totalHours = Fin 7.5, quality = Great\<rparr>,
     \<lparr>time = hhmm (clockMinutes t + 555), cycles = 6, totalHours = Fin 9, quality = Great\<rparr>]"
  by (simp add: calculateOptimalTimes_def wakeupLoop.simps SLEEP_CYCLE_MINUTES_def
      FALL_ASLEEP_MINUTES_def qualityFromCycles_def roundedHours_values
      addMinutes_numeral[OF assms])

lemma valid_0700: "validHHmm ''07:00''"
  by (simp add: validHHmm_def isDigit_def digitVal_def)

lemma clock_0700: "clockMinutes ''07:00'' = 420"
  by (simp add: clockMinutes_def digitVal_def)

lemma hhmm_values: "hhmm (420 - 555) = ''21:45''" "hhmm (420 - 105) = ''05:15''"
  by (simp_all add: hhmm_def twoDigits_def digitChar_def)

lemma hhmm_clockMinutes:
  assumes "validHHmm t"
  shows "hhmm (clockMinutes t) = t"
proof -
  from assms obtain a b d e where t: "t = [a, b, CHR '':'', d, e]"
    and dg: "isDigit a" "isDigit b" "isDigit d" "isDigit e"
    and r: "10 * digitVal a + digitVal b < 24" "10 * digitVal d + digitVal e < 60"
    by (rule validHHmm_cases)
  have v: "digitVal a < 10" "digitVal b < 10" "digitVal d < 10" "digitVal e < 10"
    using dg by (auto simp: isDigit_def digitVal_def)
  define h where "h = 10 * digitVal a + digitVal b"
  define m where "m = 10 * digitVal d + digitVal e"
  have cm: "clockMinutes t = int (60 * h + m)" by (simp add: clockMinutes_def t h_def m_def)
  have "nat (clockMinutes t mod 1440) = 60 * h + m"
    using r unfolding cm h_def[symmetric] m_def[symmetric] by (simp add: nat_mod_distrib)
  moreover have "(60 * h + m) div 60 = h" "(60 * h + m) mod 60 = m"
    using r unfolding h_def[symmetric] m_def[symmetric] by simp_all
  moreover have "h div 10 = digitVal a" "h mod 10 = digitVal b" "m div 10 = digitVal d" "m mod 10 = digitVal e"
    using v by (simp_all add: h_def m_def)
  ultimately show ?thesis
    by (simp add: hhmm_def twoDigits_def digitChar_digitVal dg t)
qed

lemma jsLe_Fin [simp]: "jsLe (Fin a) (Fin b) = (a \<le> b)"
  by (auto simp: jsLe_def)

lemma jsGt_Fin [simp]: "jsGt (Fin a) (Fin b) = (b < a)"
  by (simp add: jsGt_def)

lemma jsGe_Fin [simp]: "jsGe (Fin a) (Fin b) = (b \<le> a)"
  by (simp add: jsGe_def)

lemma jsSub_Fin [simp]: "jsSub (Fin a) (Fin b) = Fin (a - b)"
  by (simp add: jsSub_def)

lemma jsMax_Fin [simp]: "jsMax (Fin a) (Fin b) = Fin (max a b)"
  by (simp add: jsMax_def max_def)

lemma jsMin_Fin [simp]: "jsMin (Fin a) (Fin b) = Fin (min a b)"
  by (auto simp add: jsMin_def min_def)

lemma round2_Fin: "round2 (Fin a) = Fin (of_int \<lfloor>a * 100 + 1 / 2\<rfloor> / 100)"
  by (simp add: round2_def)

lemma elapsedMinutes_range:
  assumes "validHHmm b" "validHHmm w"
  shows "1 \<le> elapsedMinutes b w" "elapsedMinutes b w \<le> 1440"
  using clockMinutes_range[OF assms(1)] clockMinutes_range[OF assms(2)]
  by (auto simp: elapsedMinutes_def)

lemma hours_of_minutes:
  "jsDiv (jsRound (jsMul (jsDiv (Fin x) (Fin 60)) (Fin 100))) (Fin 100) =
   Fin (of_int \<lfloor>x / 60 * 100 + 1 / 2\<rfloor> / 100)"
  by simp

lemma calculateHoursSlept_valid:
  assumes "validHHmm b" "validHHmm w"
  shows "calculateHoursSlept b w =
         Fin (of_int \<lfloor>real_of_int (elapsedMinutes b w) / 60 * 100 + 1 / 2\<rfloor> / 100)"
proof -
  let ?cb = "clockMinutes b" and ?cw = "clockMinutes w"
  have "jsSub (if jsLe (Fin (of_int ?cw)) (Fin (of_int ?cb))
               then jsAdd (Fin (of_int ?cw)) (Fin (24 * 60)) else Fin (of_int ?cw))
          (Fin (of_int ?cb)) = Fin (real_of_int (elapsedMinutes b w))"
    by (simp add: elapsedMinutes_def)
  then show ?thesis
    unfolding calculateHoursSlept_def Let_def timeToMinutes_valid[OF assms(1)]
      timeToMinutes_valid[OF assms(2)]
    by (simp only: hours_of_minutes)
qed

lemma rounded_hours_bounds:
  fixes d :: int
  assumes "1 \<le> d" "d \<le> 1440"
  shows "0 < real_of_int \<lfloor>real_of_int d / 60 * 100 + 1 / 2\<rfloor> / 100"
    and "real_of_int \<lfloor>real_of_int d / 60 * 100 + 1 / 2\<rfloor> / 100 \<le> 24"
proof -
  have "(1::real) \<le> of_int d" using assms(1) by simp
  then have "(1::real) \<le> of_int d / 60 * 100 + 1 / 2" by simp
  then have "1 \<le> \<lfloor>real_of_int d / 60 * 100 + 1 / 2\<rfloor>" by (simp add: le_floor_iff)
  then show "0 < real_of_int \<lfloor>real_of_int d / 60 * 100 + 1 / 2\<rfloor> / 100" by simp
  have "real_of_int d \<le> 1440" using assms(2) by simp
  then have "real_of_int d / 60 * 100 + 1 / 2 < 2401" by simp
  then have "\<lfloor>real_of_int d / 60 * 100 + 1 / 2\<rfloor> < 2401" by (simp add: floor_less_iff)
  then have "\<lfloor>real_of_int d / 60 * 100 + 1 / 2\<rfloor> \<le> 2400" by simp
  then have "real_of_int \<lfloor>real_of_int d / 60 * 100 + 1 / 2\<rfloor> \<le> 2400" by linarith
  then show "real_of_int \<lfloor>real_of_int d / 60 * 100 + 1 / 2\<rfloor> / 100 \<le> 24" by simp
qed

lemma calculateHoursSlept_range:
  assumes "validHHmm b" "validHHmm w"
  shows "\<exists>h. calculateHoursSlept b w = Fin h \<and> 0 < h \<and> h \<le> 24"
  using rounded_hours_bounds[OF elapsedMinutes_range[OF assms]] calculateHoursSlept_valid[OF assms]
  by blast

lemma calculateHoursSlept_same:
  assumes "validHHmm b"
  shows "calculateHoursSlept b b = Fin 24"
  by (simp add: calculateHoursSlept_valid[OF assms assms] elapsedMinutes_def)

lemma last7DaysLoop_unfold:
  "last7DaysLoop clk records rh 6 [] = map (debtDay clk records rh) [6, 5, 4, 3, 2, 1, 0]"
  by (simp add: last7DaysLoop.simps)

lemma daily_eq:
  "daily (calculateSleepDebt clk records rh) = map (debtDay clk records rh) [6, 5, 4, 3, 2, 1, 0]"
  by (simp add: calculateSleepDebt_def Let_def last7DaysLoop_unfold)

section \<open>The candidates of the sleep-cycle calculator\<close>

text \<open>
  Claim C6.  For a valid \<^verbatim>\<open>HH:mm\<close> target, \<^verbatim>\<open>calculateOptimalTimes\<close> returns six
  candidates in either mode.  In bedtime mode they are the cycles 6 down to 1, each at the
  target minus \<open>cycles * 90 + 15\<close> minutes, modulo one day; in wakeup mode the cycles 1 up
  to 6, each at the target plus \<open>cycles * 90 + 15\<close> minutes, modulo one day.  The quality
  is poor up to two cycles, fair for three, good for four and great from five on.  For
  the target 07:00 in bedtime mode the first candidate is 21:45 (six cycles, great) and
  the last is 05:15 (one cycle, poor).
\<close>
theorem calculateOptimalTimes_six_candidates:
  "(validHHmm t \<longrightarrow>
      calculateOptimalTimes t Bedtime =
        [\<lparr>time = hhmm (clockMinutes t - (6 * 90 + 15)), cycles = 6, totalHours = Fin 9, quality = Great\<rparr>,
         \<lparr>time = hhmm (clockMinutes t - (5 * 90 + 15)), cycles = 5, totalHours = Fin 7.5, quality = Great\<rparr>,
         \<lparr>time = hhmm (clockMinutes t - (4 * 90 + 15)), cycles = 4, totalHours = Fin 6, quality = Good\<rparr>,
         \<lparr>time = hhmm (clockMinutes t - (3 * 90 + 15)), cycles = 3, totalHours = Fin 4.5, quality = Fair\<rparr>,
         \<lparr>time = hhmm (clockMinutes t - (2 * 90 + 15)), cycles = 2, totalHours = Fin 3, quality = Poor\<rparr>,
         \<lparr>time = hhmm (clockMinutes t - (1 * 90 + 15)), cycles = 1, totalHours = Fin 1.5, quality = Poor\<rparr>] \<and>
      calculateOptimalTimes t Wakeup =
        [\<lparr>time = hhmm (clockMinutes t + (1 * 90 + 15)), cycles = 1, totalHours = Fin 1.5, quality = Poor\<rparr>,
         \<lparr>time = hhmm (clockMinutes t + (2 * 90 + 15)), cycles = 2, totalHours = Fin 3, quality = Poor\<rparr>,
         \<lparr>time = hhmm (clockMinutes t + (3 * 90 + 15)), cycles = 3, totalHours = Fin 4.5, quality = Fair\<rparr>,
         \<lparr>time = hhmm (clockMinutes t + (4 * 90 + 15)), cycles = 4, totalHours = Fin 6, quality = Good\<rparr>,
         \<lparr>time = hhmm (clockMinutes t + (5 * 90 + 15)), cycles = 5, totalHours = Fin 7.5, quality = Great\<rparr>,
         \<lparr>time = hhmm (clockMinutes t + (6 * 90 + 15)), cycles = 6, totalHours = Fin 9, quality = Great\<rparr>] \<and>
      length (calculateOptimalTimes t m) = 6 \<and>
      hhmm (clockMinutes t) = t) \<and>
   (qualityFromCycles c = Poor) = (c \<le> 2) \<and>
   (qualityFromCycles c = Fair) = (c = 3) \<and>
   (qualityFromCycles c = Good) = (c = 4) \<and>
   (qualityFromCycles c = Great) = (5 \<le> c) \<and>
   hd (calculateOptimalTimes ''07:00'' Bedtime) =
     \<lparr>time = ''21:45'', cycles = 6, totalHours = Fin 9, quality = Great\<rparr> \<and>
   last (calculateOptimalTimes ''07:00'' Bedtime) =
     \<lparr>time = ''05:15'', cycles = 1, totalHours = Fin 1.5, quality = Poor\<rparr>"
proof -
  have general: "validHHmm t \<Longrightarrow> length (calculateOptimalTimes t m) = 6"
    by (cases m) (simp_all add: bedtime_candidates wakeup_candidates)
  have grade: "(qualityFromCycles c = Poor) = (c \<le> 2)" "(qualityFromCycles c = Fair) = (c = 3)"
    "(qualityFromCycles c = Good) = (c = 4)" "(qualityFromCycles c = Great) = (5 \<le> c)"
    by (auto simp: qualityFromCycles_def)
  have hv: "hhmm (- 135) = ''21:45''" "hhmm 315 = ''05:15''"
    by (simp_all add: hhmm_def twoDigits_def digitChar_def)
  have inst: "hd (calculateOptimalTimes ''07:00'' Bedtime) =
       \<lparr>time = ''21:45'', cycles = 6, totalHours = Fin 9, quality = Great\<rparr>"
    "last (calculateOptimalTimes ''07:00'' Bedtime) =
       \<lparr>time = ''05:15'', cycles = 1, totalHours = Fin 1.5, quality = Poor\<rparr>"
    by (simp_all add: bedtime_candidates[OF valid_0700] clock_0700 hv)
  have bed: "validHHmm t \<Longrightarrow> calculateOptimalTimes t Bedtime =
        [\<lparr>time = hhmm (clockMinutes t - (6 * 90 + 15)), cycles = 6, totalHours = Fin 9, quality = Great\<rparr>,
         \<lparr>time = hhmm (clockMinutes t - (5 * 90 + 15)), cycles = 5, totalHours = Fin 7.5, quality = Great\<rparr>,
         \<lparr>time = hhmm (clockMinutes t - (4 * 90 + 15)), cycles = 4, totalHours = Fin 6, quality = Good\<rparr>,
         \<lparr>time = hhmm (clockMinutes t - (3 * 90 + 15)), cycles = 3, totalHours = Fin 4.5, quality = Fair\<rparr>,
         \<lparr>time = hhmm (clockMinutes t - (2 * 90 + 15)), cycles = 2, totalHours = Fin 3, quality = Poor\<rparr>,
         \<lparr>time = hhmm (clockMinutes t - (1 * 90 + 15)), cycles = 1, totalHours = Fin 1.5, quality = Poor\<rparr>]"
    by (simp add: bedtime_candidates)
  have wake: "validHHmm t \<Longrightarrow> calculateOptimalTimes t Wakeup =
        [\<lparr>time = hhmm (clockMinutes t + (1 * 90 + 15)), cycles = 1, totalHours = Fin 1.5, quality = Poor\<rparr>,
         \<lparr>time = hhmm (clockMinutes t + (2 * 90 + 15)), cycles = 2, totalHours = Fin 3, quality = Poor\<rparr>,
         \<lparr>time = hhmm (clockMinutes t + (3 * 90 + 15)), cycles = 3, totalHours = Fin 4.5, quality = Fair\<rparr>,
         \<lparr>time = hhmm (clockMinutes t + (4 * 90 + 15)), cycles = 4, totalHours = Fin 6, quality = Good\<rparr>,
         \<lparr>time = hhmm (clockMinutes t + (5 * 90 + 15)), cycles = 5, totalHours = Fin 7.5, quality = Great\<rparr>,
         \<lparr>time = hhmm (clockMinutes t + (6 * 90 + 15)), cycles = 6, totalHours = Fin 9, quality = Great\<rparr>]"
    by (simp add: wakeup_candidates)
  show ?thesis
    apply (intro conjI impI)
             apply (erule bed)
            apply (erule wake)
           apply (erule general)
          apply (erule hhmm_clockMinutes)
         apply (rule grade(1))
        apply (rule grade(2))
       apply (rule grade(3))
      apply (rule grade(4))
     apply (rule inst(1))
    apply (rule inst(2))
    done
qed



lemma valid_2330: "validHHmm ''23:30''"
  by (simp add: validHHmm_def isDigit_def digitVal_def)

theorem calculateOptimalTimes_six_candidates_witness:
  "validHHmm ''23:30'' \<and>
   map time (calculateOptimalTimes ''23:30'' Wakeup) =
     [''01:15'', ''02:45'', ''04:15'', ''05:45'', ''07:15'', ''08:45''] \<and>
   map quality (calculateOptimalTimes ''23:30'' Wakeup) = [Poor, Poor, Fair, Good, Great, Great] \<and>
   map time (calculateOptimalTimes ''23:30'' Bedtime) =
     [''14:15'', ''15:45'', ''17:15'', ''18:45'', ''20:15'', ''21:45'']"
proof -
  have c: "clockMinutes ''23:30'' = 1410" by (simp add: clockMinutes_def digitVal_def)
  have h: "hhmm 1515 = ''01:15''" "hhmm 1605 = ''02:45''" "hhmm 1695 = ''04:15''"
    "hhmm 1785 = ''05:45''" "hhmm 1875 = ''07:15''" "hhmm 1965 = ''08:45''"
    "hhmm 855 = ''14:15''" "hhmm 945 = ''15:45''" "hhmm 1035 = ''17:15''"
    "hhmm 1125 = ''18:45''" "hhmm 1215 = ''20:15''" "hhmm 1305 = ''21:45''"
    by (simp_all add: hhmm_def twoDigits_def digitChar_def)
  note main = calculateOptimalTimes_six_candidates[of "''23:30''" Wakeup 3, THEN conjunct1,
      rule_format, OF valid_2330]
  show ?thesis
    unfolding main[THEN conjunct1] main[THEN conjunct2, THEN conjunct1] c
    using valid_2330 by (simp add: h)
qed

lemma localDay_shift: "localDay clk (t - i * msPerDay) = localDay clk t - i"
proof -
  have "(t + tzOffsetMs clk + (- i) * 86400000) div 86400000 = (t + tzOffsetMs clk) div 86400000 + (- i)"
    by simp
  then show ?thesis by (simp add: localDay_def msPerDay_def algebra_simps)
qed

lemma setDate_back: "setDate clk t (getDate clk t - i) = t - i * msPerDay"
  by (simp add: setDate_def algebra_simps)

lemma isoDate_dayString: "isoDate clk t = dayString (localDay clk t)"
  by (simp add: isoDate_def dayString_def getFullYear_def getMonth_def getDate_def split: prod.splits)

lemma isoDate_setDate: "isoDate clk (setDate clk t (getDate clk t - i)) = dayString (localDay clk t - i)"
  by (simp only: setDate_back isoDate_dayString localDay_shift)

lemma localDay_clk0: "localDay clk0 (nowMs clk0) = 19784"
  by (simp add: localDay_def clk0_def msPerDay_def)

lemma dayString_values:
  "dayString 19784 = ''2024-03-02''" "dayString 19783 = ''2024-03-01''"
  "dayString 19782 = ''2024-02-29''" "dayString 19781 = ''2024-02-28''"
  "dayString 19780 = ''2024-02-27''" "dayString 19779 = ''2024-02-26''"
  "dayString 19778 = ''2024-02-25''" "dayString 19777 = ''2024-02-24''"
  "dayString 19785 = ''2024-03-03''"
  by code_simp+

lemma getDay_clk0: "getDay clk0 (nowMs clk0) = 6"
  by code_simp

lemma debtDay_day: "day (debtDay clk records rh i) = dayString (localDay clk (nowMs clk) - i)"
  by (simp add: debtDay_def Let_def isoDate_setDate)

lemma debtDay_hours:
  "dayHours (debtDay clk records rh i) =
     (case find (\<lambda>r. date r = day (debtDay clk records rh i)) records of
        Some r \<Rightarrow> hoursSlept r | None \<Rightarrow> Fin 0)"
  by (simp add: debtDay_def Let_def)

lemma debtDay_debt:
  "debt (debtDay clk records rh i) = jsMax (Fin 0) (jsSub rh (dayHours (debtDay clk records rh i)))"
  by (simp add: debtDay_def Let_def)

lemma daily_hours:
  assumes "x \<in> set (daily (calculateSleepDebt clk records rh))"
  shows "dayHours x = (case find (\<lambda>r. date r = day x) records of Some r \<Rightarrow> hoursSlept r | None \<Rightarrow> Fin 0)"
    and "debt x = jsMax (Fin 0) (jsSub rh (dayHours x))"
  using assms debtDay_hours debtDay_debt unfolding daily_eq by auto

lemma createdByAdd_positive:
  assumes "createdByAdd r"
  shows "jsGt (hoursSlept r) (Fin 0)"
proof -
  from assms have v: "validHHmm (bedtime r)" "validHHmm (wakeTime r)"
    and h: "hoursSlept r = calculateHoursSlept (bedtime r) (wakeTime r)"
    by (simp_all add: createdByAdd_def)
  from calculateHoursSlept_range[OF v] obtain x where "calculateHoursSlept (bedtime r) (wakeTime r) = Fin x" "0 < x"
    by blast
  then show ?thesis by (simp add: h)
qed

lemma addSleepRecord_last:
  "last (addSleepRecord i d b w prev) =
     \<lparr>recordId = i, date = d, bedtime = b, wakeTime = w, hoursSlept = calculateHoursSlept b w\<rparr>"
  by (simp add: addSleepRecord_def)

section \<open>Hours slept are positive\<close>

text \<open>
  Claim C10.  For valid \<^verbatim>\<open>HH:mm\<close> bedtime and wake time, \<^verbatim>\<open>calculateHoursSlept\<close> returns a
  finite number above 0 and at most 24, and 24 when the two times are equal.  So the record
  that \<^verbatim>\<open>addSleepRecord\<close> appends has positive \<open>hoursSlept\<close>; and a day of the debt window
  whose matching record (the first with the day's date) was created in this way has these
  hours, which are positive, and passes the filter of the days that \<open>avgHours\<close> averages:
  \<open>avgHours\<close> is the rounded mean of the hours of exactly the days that pass it.
\<close>

theorem calculateHoursSlept_positive:
  "(validHHmm b \<and> validHHmm w \<longrightarrow>
      (\<exists>h. calculateHoursSlept b w = Fin h \<and> 0 < h \<and> h \<le> 24) \<and>
      calculateHoursSlept b b = Fin 24 \<and>
      createdByAdd (last (addSleepRecord i d b w prev)) \<and>
      jsGt (hoursSlept (last (addSleepRecord i d b w prev))) (Fin 0)) \<and>
   (\<forall>x r. x \<in> set (daily (calculateSleepDebt clk records rh)) \<and>
          find (\<lambda>r. date r = day x) records = Some r \<and> createdByAdd r \<longrightarrow>
          dayHours x = hoursSlept r \<and> jsGt (dayHours x) (Fin 0) \<and>
          x \<in> set (filter (\<lambda>d. jsGt (dayHours d) (Fin 0)) (daily (calculateSleepDebt clk records rh)))) \<and>
   avgHours (calculateSleepDebt clk records rh) =
     (if length (filter (\<lambda>d. jsGt (dayHours d) (Fin 0)) (daily (calculateSleepDebt clk records rh))) > 0
      then round2 (jsDiv (foldl (\<lambda>acc d. jsAdd acc (dayHours d)) (Fin 0)
                     (filter (\<lambda>d. jsGt (dayHours d) (Fin 0)) (daily (calculateSleepDebt clk records rh))))
              (Fin (real (length (filter (\<lambda>d. jsGt (dayHours d) (Fin 0))
                     (daily (calculateSleepDebt clk records rh)))))))
      else Fin 0)"
proof (intro conjI impI allI)
  assume v: "validHHmm b \<and> validHHmm w"
  then show "\<exists>h. calculateHoursSlept b w = Fin h \<and> 0 < h \<and> h \<le> 24"
    by (simp add: calculateHoursSlept_range)
  from v show "calculateHoursSlept b b = Fin 24"
    by (simp add: calculateHoursSlept_same)
  from v show c: "createdByAdd (last (addSleepRecord i d b w prev))"
    by (simp add: addSleepRecord_last createdByAdd_def)
  then show "jsGt (hoursSlept (last (addSleepRecord i d b w prev))) (Fin 0)"
    by (rule createdByAdd_positive)
next
  fix x r
  assume a: "x \<in> set (daily (calculateSleepDebt clk records rh)) \<and>
          find (\<lambda>r. date r = day x) records = Some r \<and> createdByAdd r"
  then show h: "dayHours x = hoursSlept r"
    using daily_hours(1)[of x clk records rh] by simp
  from a show p: "jsGt (dayHours x) (Fin 0)"
    unfolding h by (simp add: createdByAdd_positive)
  from a p show "x \<in> set (filter (\<lambda>d. jsGt (dayHours d) (Fin 0)) (daily (calculateSleepDebt clk records rh)))"
    by simp
next
  show "avgHours (calculateSleepDebt clk records rh) =
     (if length (filter (\<lambda>d. jsGt (dayHours d) (Fin 0)) (daily (calculateSleepDebt clk records rh))) > 0
      then round2 (jsDiv (foldl (\<lambda>acc d. jsAdd acc (dayHours d)) (Fin 0)
                     (filter (\<lambda>d. jsGt (dayHours d) (Fin 0)) (daily (calculateSleepDebt clk records rh))))
              (Fin (real (length (filter (\<lambda>d. jsGt (dayHours d) (Fin 0))
                     (daily (calculateSleepDebt clk records rh)))))))
      else Fin 0)"
    by (simp add: calculateSleepDebt_def Let_def)
qed

lemma valid_2300: "validHHmm ''23:00''"
  by (simp add: validHHmm_def isDigit_def digitVal_def)

theorem calculateHoursSlept_positive_witness:
  "validHHmm ''23:00'' \<and> validHHmm ''07:00'' \<and>
   (\<exists>h. calculateHoursSlept ''23:00'' ''07:00'' = Fin h \<and> 0 < h \<and> h \<le> 24) \<and>
   calculateHoursSlept ''23:00'' ''23:00'' = Fin 24 \<and>
   jsGt (hoursSlept (last recs0)) (Fin 0) \<and>
   day (last (daily (calculateSleepDebt clk0 recs0 (Fin 8)))) = ''2024-03-02'' \<and>
   dayHours (last (daily (calculateSleepDebt clk0 recs0 (Fin 8)))) = hoursSlept (last recs0) \<and>
   last (daily (calculateSleepDebt clk0 recs0 (Fin 8))) \<in>
     set (filter (\<lambda>d. jsGt (dayHours d) (Fin 0)) (daily (calculateSleepDebt clk0 recs0 (Fin 8))))"
proof -
  let ?x = "last (daily (calculateSleepDebt clk0 recs0 (Fin 8)))"
  note T = calculateHoursSlept_positive[of "''23:00''" "''07:00''" "''r1''" "''2024-03-02''" "[]"
      clk0 recs0 "Fin 8"]
  note A = T[THEN conjunct1, rule_format, OF conjI[OF valid_2300 valid_0700], folded recs0_def]
  have x: "?x = debtDay clk0 recs0 (Fin 8) 0" by (simp add: daily_eq)
  have dx: "day ?x = ''2024-03-02''"
    by (simp add: x debtDay_day localDay_clk0 dayString_values)
  have mem: "?x \<in> set (daily (calculateSleepDebt clk0 recs0 (Fin 8)))"
    by (simp add: daily_eq)
  have f: "find (\<lambda>r. date r = day ?x) recs0 = Some (last recs0)"
    unfolding dx by (simp add: recs0_def addSleepRecord_def)
  note B = T[THEN conjunct2, THEN conjunct1, rule_format, of ?x "last recs0",
      OF conjI[OF mem conjI[OF f]]]
  have c: "createdByAdd (last recs0)" using A by simp
  show ?thesis
    using valid_2300 valid_0700 A B[OF c] dx by simp
qed

lemma dropWhile_white_digits:
  assumes "c \<noteq> []" "list_all isDigit c"
  shows "dropWhile isWhite c = c"
  using assms by (cases c) (simp_all add: digit_facts)

lemma trim_digits:
  assumes "c \<noteq> []" "list_all isDigit c"
  shows "trim c = c"
proof -
  have "rev c \<noteq> []" "list_all isDigit (rev c)" using assms by (simp_all add: list_all_iff)
  then have "dropWhile isWhite (rev c) = rev c" by (rule dropWhile_white_digits)
  then show ?thesis by (simp add: trim_def dropWhile_white_digits[OF assms])
qed

lemma take2_digits:
  assumes "list_all isDigit c"
  shows "take 2 c \<noteq> [x, y] \<or> (isDigit x \<and> isDigit y)"
  using assms by (cases c; cases "tl c") auto

lemma not_prefix_digits:
  assumes "list_all isDigit c"
  shows "take 2 c \<noteq> ''0x''" "take 2 c \<noteq> ''0X''" "take 2 c \<noteq> ''0o''" "take 2 c \<noteq> ''0O''"
    "take 2 c \<noteq> ''0b''" "take 2 c \<noteq> ''0B''"
  using take2_digits[OF assms, of "CHR ''0''" "CHR ''x''"] take2_digits[OF assms, of "CHR ''0''" "CHR ''X''"]
    take2_digits[OF assms, of "CHR ''0''" "CHR ''o''"] take2_digits[OF assms, of "CHR ''0''" "CHR ''O''"]
    take2_digits[OF assms, of "CHR ''0''" "CHR ''b''"] take2_digits[OF assms, of "CHR ''0''" "CHR ''B''"]
  by (auto simp: isDigit_def)

lemma unsignedDecimal_digits:
  assumes "c \<noteq> []" "list_all isDigit c"
  shows "unsignedDecimal c = Fin (real (digitsVal c))"
proof -
  have tw: "takeWhile isDigit c = c" and dw: "dropWhile isDigit c = []"
    using assms(2) by (simp_all add: list_all_iff)
  show ?thesis
    unfolding unsignedDecimal_def Let_def tw dw
    using assms(1) by (simp add: exponentPart_def digitsVal_def)
qed

lemma strDecimal_digits:
  assumes "c \<noteq> []" "list_all isDigit c"
  shows "strDecimal c = Fin (real (digitsVal c))"
proof -
  from assms obtain x xs where c: "c = x # xs" and x: "isDigit x" by (cases c) auto
  have "hd c \<noteq> CHR ''-''" "hd c \<noteq> CHR ''+''" "c \<noteq> ''Infinity''"
    using digit_facts[OF x] by (auto simp: c)
  then show ?thesis
    using assms(1) by (simp add: strDecimal_def unsignedDecimal_digits[OF assms])
qed

lemma jsNumber_digits:
  assumes "numericComponent c"
  shows "jsNumber c = Fin (real (digitsVal c))"
proof -
  from assms have c: "c \<noteq> []" "list_all isDigit c" by (simp_all add: numericComponent_def)
  show ?thesis
    using c(1) by (simp add: jsNumber_def trim_digits[OF c] not_prefix_digits[OF c(2)] strDecimal_digits[OF c])
qed

lemma splitOn_nonempty: "splitOn c s \<noteq> []"
  by (induction s) auto

lemma splitOn_single: "(length (splitOn c s) = 1) = (c \<notin> set s)"
proof (induction s)
  case Nil
  then show ?case by simp
next
  case (Cons x xs)
  have "splitOn c xs \<noteq> []" by (rule splitOn_nonempty)
  then obtain w ws where w: "splitOn c xs = w # ws" by (cases "splitOn c xs") auto
  show ?case using Cons w by auto
qed

lemma parseTime_fields:
  "hours (parseTime s) = Some (jsNumber (hd (splitOn CHR '':'' s)))"
  "(minutes (parseTime s) = None) = (CHR '':'' \<notin> set s)"
  "CHR '':'' \<in> set s \<Longrightarrow> minutes (parseTime s) = Some (jsNumber (splitOn CHR '':'' s ! 1))"
proof -
  obtain w ws where w: "splitOn CHR '':'' s = w # ws"
    using splitOn_nonempty[of "CHR '':''" s] by (cases "splitOn CHR '':'' s") auto
  show "hours (parseTime s) = Some (jsNumber (hd (splitOn CHR '':'' s)))"
    by (simp add: parseTime_def nthOpt_def w)
  have l: "(ws = []) = (CHR '':'' \<notin> set s)"
    using splitOn_single[of "CHR '':''" s] by (simp add: w)
  show "(minutes (parseTime s) = None) = (CHR '':'' \<notin> set s)"
    using l by (cases ws) (simp_all add: parseTime_def nthOpt_def w)
  show "CHR '':'' \<in> set s \<Longrightarrow> minutes (parseTime s) = Some (jsNumber (splitOn CHR '':'' s ! 1))"
    using l by (cases ws) (simp_all add: parseTime_def nthOpt_def w)
qed

lemma parseTimeSpec_agrees:
  assumes "twoNumericComponents s"
  shows "parseTimeSpec s = Inr (parseTime s)"
proof -
  from assms obtain a b where sp: "splitOn CHR '':'' s = [a, b]"
    and n: "numericComponent a" "numericComponent b"
    by (auto simp: twoNumericComponents_def split: list.splits)
  show ?thesis
    by (simp add: parseTimeSpec_def parseTime_def sp n nthOpt_def jsNumber_digits)
qed

lemma jsNumber_abc: "jsNumber ''abc'' = NaN"
  by (simp add: jsNumber_def trim_def isWhite_def strDecimal_def unsignedDecimal_def isDigit_def
      exponentPart_def digitsVal_def digitVal_def Let_def)

lemma parseTime_abc: "parseTime ''abc'' = \<lparr>hours = Some NaN, minutes = None\<rparr>"
  by (simp add: parseTime_def nthOpt_def jsNumber_abc)

lemma numeric_examples:
  "numericComponent ''12''" "numericComponent ''30''" "numericComponent ''45''"
  "numericComponent ''07''" "\<not> numericComponent ''abc''"
  by (simp_all add: numericComponent_def isDigit_def)

lemma digitsVal_examples:
  "digitsVal ''12'' = 12" "digitsVal ''30'' = 30" "digitsVal ''07'' = 7"
  by (simp_all add: digitsVal_def digitVal_def)

lemma parseTime_123045:
  "parseTime ''12:30:45'' = \<lparr>hours = Some (Fin 12), minutes = Some (Fin 30)\<rparr>"
  by (simp add: parseTime_def nthOpt_def jsNumber_digits numeric_examples digitsVal_examples)

section \<open>parseTime never fails\<close>

text \<open>
  Claim C2 says that \<^verbatim>\<open>parseTime\<close> fails with \<open>InvalidFormat\<close> on every string that is not
  two numeric components separated by a colon.  The source has no failure branch.  On
  \<^verbatim>\<open>"abc"\<close> it returns NaN hours and undefined minutes, and the NaN goes on into
  \<^verbatim>\<open>timeToMinutes\<close> and \<^verbatim>\<open>calculateHoursSlept\<close>; on \<^verbatim>\<open>"12:30:45"\<close> it returns 12 and 30 and
  drops the third component.
\<close>
theorem parseTime_no_failure_counterexample:
  "\<not> twoNumericComponents ''abc'' \<and>
   parseTimeSpec ''abc'' = Inl InvalidFormat \<and>
   parseTime ''abc'' = \<lparr>hours = Some NaN, minutes = None\<rparr> \<and>
   timeToMinutes ''abc'' = NaN \<and>
   calculateHoursSlept ''abc'' ''07:00'' = NaN \<and>
   \<not> twoNumericComponents ''12:30:45'' \<and>
   parseTimeSpec ''12:30:45'' = Inl InvalidFormat \<and>
   parseTime ''12:30:45'' = \<lparr>hours = Some (Fin 12), minutes = Some (Fin 30)\<rparr>"
proof -
  have a: "\<not> twoNumericComponents ''abc''" "parseTimeSpec ''abc'' = Inl InvalidFormat"
    by (simp_all add: twoNumericComponents_def parseTimeSpec_def numeric_examples)
  have b: "\<not> twoNumericComponents ''12:30:45''" "parseTimeSpec ''12:30:45'' = Inl InvalidFormat"
    by (simp_all add: twoNumericComponents_def parseTimeSpec_def)
  have t: "timeToMinutes ''abc'' = NaN"
    by (simp add: timeToMinutes_def parseTime_abc)
  have c: "calculateHoursSlept ''abc'' ''07:00'' = NaN"
    unfolding calculateHoursSlept_def Let_def t timeToMinutes_valid[OF valid_0700]
    by (simp add: jsLe_def jsSub_def)
  show ?thesis
    using a b t c parseTime_abc parseTime_123045 by simp
qed

lemma jsNumber_not_literal:
  assumes "trim c \<noteq> []" "\<not> isDigit (hd (trim c))" "hd (trim c) \<notin> set ''+-.I''"
  shows "jsNumber c = NaN"
proof -
  from assms(1) obtain x xs where t: "trim c = x # xs" by (cases "trim c") auto
  from assms(2,3) have x: "\<not> isDigit x" "x \<noteq> CHR ''+''" "x \<noteq> CHR ''-''" "x \<noteq> CHR ''.''" "x \<noteq> CHR ''I''"
    by (simp_all add: t)
  from x(1) have z: "x \<noteq> CHR ''0''" by (auto simp: isDigit_def)
  have u: "unsignedDecimal (x # xs) = NaN"
    using x by (simp add: unsignedDecimal_def)
  have "strDecimal (x # xs) = NaN"
    using x u by (simp add: strDecimal_def)
  then show ?thesis
    using z by (simp add: jsNumber_def t)
qed

lemma timeToMinutes_NaN:
  assumes "toNumber (hours (parseTime s)) = NaN \<or> toNumber (minutes (parseTime s)) = NaN"
  shows "timeToMinutes s = NaN"
proof -
  have a: "\<And>y. jsAdd NaN y = NaN" by simp
  have b: "\<And>x. jsAdd x NaN = NaN" by (case_tac x) simp_all
  show ?thesis using assms unfolding timeToMinutes_def Let_def by (auto simp: a b)
qed

lemma jsAdd_NaN_right: "jsAdd x NaN = NaN"
  by (cases x) simp_all

lemma jsLe_NaN: "\<not> jsLe NaN y" "\<not> jsLe x NaN"
  by (cases y; simp add: jsLe_def) (cases x; simp add: jsLe_def)

lemma round_chain_NaN: "jsDiv (jsRound (jsMul (jsDiv NaN (Fin 60)) (Fin 100))) (Fin 100) = NaN"
  by simp

lemma calculateHoursSlept_NaN:
  assumes "timeToMinutes b = NaN \<or> timeToMinutes w = NaN"
  shows "calculateHoursSlept b w = NaN"
proof -
  from assms consider "timeToMinutes b = NaN" | "timeToMinutes w = NaN" by blast
  then show ?thesis
  proof cases
    case 1
    have "jsSub (if jsLe (timeToMinutes w) NaN then jsAdd (timeToMinutes w) (Fin (24 * 60))
                 else timeToMinutes w) NaN = NaN"
      by (simp add: jsSub_def jsAdd_NaN_right)
    then show ?thesis
      unfolding calculateHoursSlept_def Let_def 1 by (simp only: round_chain_NaN)
  next
    case 2
    have "jsSub (if jsLe NaN (timeToMinutes b) then jsAdd NaN (Fin (24 * 60)) else NaN)
            (timeToMinutes b) = NaN"
      by (simp add: jsSub_def jsLe_NaN)
    then show ?thesis
      unfolding calculateHoursSlept_def Let_def 2 by (simp only: round_chain_NaN)
  qed
qed

lemma parseTimeSpec_agrees_short:
  assumes "twoNumericComponents s \<and> (\<forall>c\<in>set (splitOn CHR '':'' s). length c \<le> 15)"
  shows "parseTimeSpec s = Inr (parseTime s)"
  using assms parseTimeSpec_agrees by blast

text \<open>
  Claim C2, amended.  \<^verbatim>\<open>parseTime\<close> returns for every string.  The hours are \<^verbatim>\<open>Number\<close> of
  the text before the first colon; the minutes are undefined when the string has no colon
  and otherwise \<^verbatim>\<open>Number\<close> of the second component; further components are ignored.  On
  a string of exactly two numeric components of at most 15 digits it returns the two
  integers, as the specification asks.  A component whose first character after white
  space is no digit, sign, point or \<open>I\<close> gives NaN.  NaN or undefined hours or minutes make
  \<^verbatim>\<open>timeToMinutes\<close> NaN, and a NaN bedtime or wake time makes \<^verbatim>\<open>calculateHoursSlept\<close> NaN:
  nothing fails on the way.
\<close>

theorem parseTime_total:
  "hours (parseTime s) = Some (jsNumber (hd (splitOn CHR '':'' s))) \<and>
   (minutes (parseTime s) = None) = (CHR '':'' \<notin> set s) \<and>
   (CHR '':'' \<in> set s \<longrightarrow> minutes (parseTime s) = Some (jsNumber (splitOn CHR '':'' s ! 1))) \<and>
   (twoNumericComponents s \<and> (\<forall>c\<in>set (splitOn CHR '':'' s). length c \<le> 15) \<longrightarrow>
      parseTimeSpec s = Inr (parseTime s)) \<and>
   (trim c \<noteq> [] \<and> \<not> isDigit (hd (trim c)) \<and> hd (trim c) \<notin> set ''+-.I'' \<longrightarrow>
      jsNumber c = NaN) \<and>
   (toNumber (hours (parseTime s)) = NaN \<or> toNumber (minutes (parseTime s)) = NaN \<longrightarrow>
      timeToMinutes s = NaN) \<and>
   (timeToMinutes b = NaN \<or> timeToMinutes w = NaN \<longrightarrow> calculateHoursSlept b w = NaN)"
proof (intro conjI impI)
  show "hours (parseTime s) = Some (jsNumber (hd (splitOn CHR '':'' s)))"
    by (rule parseTime_fields)
  show "(minutes (parseTime s) = None) = (CHR '':'' \<notin> set s)"
    by (rule parseTime_fields)
  show "CHR '':'' \<in> set s \<Longrightarrow> minutes (parseTime s) = Some (jsNumber (splitOn CHR '':'' s ! 1))"
    by (rule parseTime_fields)
  show "twoNumericComponents s \<and> (\<forall>c\<in>set (splitOn CHR '':'' s). length c \<le> 15) \<Longrightarrow>
      parseTimeSpec s = Inr (parseTime s)"
    by (rule parseTimeSpec_agrees_short)
  show "trim c \<noteq> [] \<and> \<not> isDigit (hd (trim c)) \<and> hd (trim c) \<notin> set ''+-.I'' \<Longrightarrow>
      jsNumber c = NaN"
    by (elim conjE) (rule jsNumber_not_literal)
  show "toNumber (hours (parseTime s)) = NaN \<or> toNumber (minutes (parseTime s)) = NaN \<Longrightarrow>
      timeToMinutes s = NaN"
    by (rule timeToMinutes_NaN)
  show "timeToMinutes b = NaN \<or> timeToMinutes w = NaN \<Longrightarrow> calculateHoursSlept b w = NaN"
    by (rule calculateHoursSlept_NaN)
qed

theorem parseTime_total_witness:
  "twoNumericComponents ''07:30'' \<and> CHR '':'' \<in> set ''07:30'' \<and>
   parseTimeSpec ''07:30'' = Inr (parseTime ''07:30'') \<and>
   parseTime ''07:30'' = \<lparr>hours = Some (Fin 7), minutes = Some (Fin 30)\<rparr> \<and>
   jsNumber ''abc'' = NaN \<and>
   timeToMinutes ''abc'' = NaN \<and>
   calculateHoursSlept ''abc'' ''07:00'' = NaN \<and>
   calculateHoursSlept ''23:00'' ''7'' = NaN"
proof -
  have v: "twoNumericComponents ''07:30''"
    by (simp add: twoNumericComponents_def numeric_examples)
  have sh: "\<forall>c\<in>set (splitOn CHR '':'' ''07:30''). length c \<le> 15" by simp
  have c: "CHR '':'' \<in> set ''07:30''" by simp
  note T = parseTime_total[of "''07:30''" "''abc''" "''abc''" "''07:00''"]
  note U = parseTime_total[of "''abc''" "''abc''" "''23:00''" "''7''"]
  note V = parseTime_total[of "''7''" "''abc''" "''23:00''" "''7''"]
  note T4 = T[THEN conjunct2, THEN conjunct2, THEN conjunct2]
  note U4 = U[THEN conjunct2, THEN conjunct2, THEN conjunct2]
  note V4 = V[THEN conjunct2, THEN conjunct2, THEN conjunct2]
  have s: "parseTimeSpec ''07:30'' = Inr (parseTime ''07:30'')"
    using T4[THEN conjunct1, THEN mp, OF conjI[OF v sh]] .
  have h: "hours (parseTime ''07:30'') = Some (Fin 7)"
    using T[THEN conjunct1] by (simp add: jsNumber_digits numeric_examples digitsVal_examples)
  have m: "minutes (parseTime ''07:30'') = Some (Fin 30)"
    using T[THEN conjunct2, THEN conjunct2, THEN conjunct1, THEN mp, OF c]
    by (simp add: jsNumber_digits numeric_examples digitsVal_examples)
  have p: "parseTime ''07:30'' = \<lparr>hours = Some (Fin 7), minutes = Some (Fin 30)\<rparr>"
    using h m by (cases "parseTime ''07:30''") simp
  have tr: "trim ''abc'' = ''abc''" by (simp add: trim_def isWhite_def)
  have n: "jsNumber ''abc'' = NaN"
    using T4[THEN conjunct2, THEN conjunct1] unfolding tr by (simp add: isDigit_def)
  have hn: "toNumber (hours (parseTime ''abc'')) = NaN"
    using U[THEN conjunct1] n by simp
  have tn: "timeToMinutes ''abc'' = NaN"
    using U4[THEN conjunct2, THEN conjunct2, THEN conjunct1, THEN mp, OF disjI1[OF hn]] .
  have cn: "calculateHoursSlept ''abc'' ''07:00'' = NaN"
    using T4[THEN conjunct2, THEN conjunct2, THEN conjunct2, THEN mp, OF disjI1[OF tn]] .
  have "minutes (parseTime ''7'') = None"
    using V[THEN conjunct2, THEN conjunct1] by simp
  then have mn: "toNumber (minutes (parseTime ''7'')) = NaN" by simp
  have t7: "timeToMinutes ''7'' = NaN"
    using V4[THEN conjunct2, THEN conjunct2, THEN conjunct1, THEN mp, OF disjI2[OF mn]] .
  have c7: "calculateHoursSlept ''23:00'' ''7'' = NaN"
    using V4[THEN conjunct2, THEN conjunct2, THEN conjunct2, THEN mp, OF disjI2[OF t7]] .
  show ?thesis
    using v c s p n tn cn c7 by (intro conjI)
qed

lemma allTips_titles:
  "map title (allTips clk st es) =
     (if jsGt (currentCaffeineMg st) (Fin 200) then [CaffeineHigh]
      else if jsGt (currentCaffeineMg st) (Fin 100) then [CaffeineModerate] else []) @
     (if jsGt (totalDebtHours st) (Fin 10) then [DebtSevere]
      else if jsGt (totalDebtHours st) (Fin 5) then [DebtModerate] else []) @
     (if jsGt (avgHoursThisWeek st) (Fin 0) \<and> jsLt (avgHoursThisWeek st) (Fin 6) then [ShortSleep] else []) @
     (if jsGe (totalRecords st) (Fin 3) then [RegularBedtime] else []) @
     (if length (eveningEntries clk es) > 0 then [LateCaffeine] else []) @
     [BlueLight, RoomTemperature] @
     (if jsGt (jsSub (longestSleep st) (shortestSleep st)) (Fin 3) \<and> jsGt (shortestSleep st) (Fin 0)
      then [SleepVariance] else []) @
     [RegularExercise, MealTiming]"
  by (simp add: allTips_def Let_def)

lemma cascade_split:
  "cascadeOrder =
     [CaffeineHigh, CaffeineModerate] @ [DebtSevere, DebtModerate] @ [ShortSleep] @
     [RegularBedtime] @ [LateCaffeine] @ [BlueLight, RoomTemperature] @ [SleepVariance] @
     [RegularExercise, MealTiming]"
  by (simp add: cascadeOrder_def)

lemma allTips_cascade:
  "map title (allTips clk st es) = filter (tipApplies clk st es) cascadeOrder"
proof -
  let ?P = "tipApplies clk st es"
  have p1: "filter ?P [CaffeineHigh, CaffeineModerate] =
      (if jsGt (currentCaffeineMg st) (Fin 200) then [CaffeineHigh]
       else if jsGt (currentCaffeineMg st) (Fin 100) then [CaffeineModerate] else [])"
    by (simp add: tipApplies_def)
  have p2: "filter ?P [DebtSevere, DebtModerate] =
      (if jsGt (totalDebtHours st) (Fin 10) then [DebtSevere]
       else if jsGt (totalDebtHours st) (Fin 5) then [DebtModerate] else [])"
    by (simp add: tipApplies_def)
  have p3: "filter ?P [ShortSleep] =
      (if jsGt (avgHoursThisWeek st) (Fin 0) \<and> jsLt (avgHoursThisWeek st) (Fin 6) then [ShortSleep] else [])"
    by (simp add: tipApplies_def)
  have p4: "filter ?P [RegularBedtime] = (if jsGe (totalRecords st) (Fin 3) then [RegularBedtime] else [])"
    by (simp add: tipApplies_def)
  have p5: "filter ?P [LateCaffeine] = (if length (eveningEntries clk es) > 0 then [LateCaffeine] else [])"
    by (simp add: tipApplies_def)
  have p6: "filter ?P [BlueLight, RoomTemperature] = [BlueLight, RoomTemperature]"
    by (simp add: tipApplies_def)
  have p7: "filter ?P [SleepVariance] =
      (if jsGt (jsSub (longestSleep st) (shortestSleep st)) (Fin 3) \<and> jsGt (shortestSleep st) (Fin 0)
       then [SleepVariance] else [])"
    by (simp add: tipApplies_def)
  have p8: "filter ?P [RegularExercise, MealTiming] = [RegularExercise, MealTiming]"
    by (simp add: tipApplies_def)
  show ?thesis
    unfolding allTips_titles cascade_split filter_append p1 p2 p3 p4 p5 p6 p7 p8 ..
qed

lemma caffeine_exclusive: "\<not> (tipApplies clk st es CaffeineHigh \<and> tipApplies clk st es CaffeineModerate)"
  by (simp add: tipApplies_def)

lemma generateSleepTips_titles:
  "map title (generateSleepTips clk st es) = take 8 (filter (tipApplies clk st es) cascadeOrder)"
  unfolding generateSleepTips_def take_map[symmetric] allTips_cascade ..

lemma tips_applied:
  assumes "t \<in> set (map title (generateSleepTips clk st es))"
  shows "tipApplies clk st es t"
proof -
  from assms have "t \<in> set (take 8 (filter (tipApplies clk st es) cascadeOrder))"
    by (simp only: generateSleepTips_titles)
  then have "t \<in> set (filter (tipApplies clk st es) cascadeOrder)"
    by (rule in_set_takeD)
  then show ?thesis by simp
qed

section \<open>The tip cascade\<close>

text \<open>
  Claim C9.  \<^verbatim>\<open>generateSleepTips\<close> returns the first eight of the tips it has built.  The
  tips it builds are those of the cascade whose rule holds, in the order of the cascade:
  nothing is sorted again.  So the result has at most eight tips, and the warnings for
  high and for moderate caffeine never appear together.
\<close>

theorem generateSleepTips_cascade:
  "generateSleepTips clk st es = take 8 (allTips clk st es) \<and>
   map title (allTips clk st es) = filter (tipApplies clk st es) cascadeOrder \<and>
   map title (generateSleepTips clk st es) = take 8 (filter (tipApplies clk st es) cascadeOrder) \<and>
   length (generateSleepTips clk st es) \<le> 8 \<and>
   \<not> (CaffeineHigh \<in> set (map title (generateSleepTips clk st es)) \<and>
      CaffeineModerate \<in> set (map title (generateSleepTips clk st es)))"
proof -
  have "\<not> (CaffeineHigh \<in> set (map title (generateSleepTips clk st es)) \<and>
      CaffeineModerate \<in> set (map title (generateSleepTips clk st es)))"
    using tips_applied[of CaffeineHigh clk st es] tips_applied[of CaffeineModerate clk st es]
      caffeine_exclusive[of clk st es] by blast
  moreover have "length (generateSleepTips clk st es) \<le> 8"
    by (simp add: generateSleepTips_def)
  ultimately show ?thesis
    by (intro conjI generateSleepTips_def allTips_cascade generateSleepTips_titles)
qed

lemma evening_example:
  "eveningEntries clkEvening [mkEntry ''e1'' 1709366400000 95] \<noteq> []"
  by code_simp

theorem generateSleepTips_cascade_witness:
  "map title (generateSleepTips clkEvening statsAll [mkEntry ''e1'' 1709366400000 95]) =
     [CaffeineHigh, DebtSevere, ShortSleep, RegularBedtime, LateCaffeine, BlueLight,
      RoomTemperature, SleepVariance] \<and>
   map title (allTips clkEvening statsAll [mkEntry ''e1'' 1709366400000 95]) =
     [CaffeineHigh, DebtSevere, ShortSleep, RegularBedtime, LateCaffeine, BlueLight,
      RoomTemperature, SleepVariance, RegularExercise, MealTiming] \<and>
   length (generateSleepTips clkEvening statsAll [mkEntry ''e1'' 1709366400000 95]) \<le> 8"
proof -
  let ?es = "[mkEntry ''e1'' 1709366400000 95]"
  note T = generateSleepTips_cascade[of clkEvening statsAll ?es]
  have f: "filter (tipApplies clkEvening statsAll ?es) cascadeOrder =
     [CaffeineHigh, DebtSevere, ShortSleep, RegularBedtime, LateCaffeine, BlueLight,
      RoomTemperature, SleepVariance, RegularExercise, MealTiming]"
    using evening_example by (simp add: cascadeOrder_def tipApplies_def statsAll_def)
  have a: "map title (allTips clkEvening statsAll ?es) =
     [CaffeineHigh, DebtSevere, ShortSleep, RegularBedtime, LateCaffeine, BlueLight,
      RoomTemperature, SleepVariance, RegularExercise, MealTiming]"
    using T[THEN conjunct2, THEN conjunct1] unfolding f .
  have g: "map title (generateSleepTips clkEvening statsAll ?es) =
     [CaffeineHigh, DebtSevere, ShortSleep, RegularBedtime, LateCaffeine, BlueLight,
      RoomTemperature, SleepVariance]"
    using T[THEN conjunct2, THEN conjunct2, THEN conjunct1] unfolding f by simp
  have l: "length (generateSleepTips clkEvening statsAll ?es) \<le> 8"
    using T[THEN conjunct2, THEN conjunct2, THEN conjunct2, THEN conjunct1] .
  show ?thesis using a g l by (intro conjI)
qed

lemma isFin_realOf: "isFin x \<Longrightarrow> x = Fin (realOf x)"
  by (cases x) (simp_all add: isFin_def)

lemma remaining_fin:
  assumes "isFin (amountMg e)" "\<not> atMs < timestamp e"
  shows "remaining atMs e = Fin (residual atMs e)"
proof -
  obtain a where a: "amountMg e = Fin a" using isFin_realOf[OF assms(1)] by blast
  show ?thesis using assms(2) by (simp add: remaining_def residual_def a CAFFEINE_HALF_LIFE_HOURS_def)
qed

lemma level_fold:
  assumes "\<forall>e\<in>set es. isFin (amountMg e)"
  shows "foldl (\<lambda>total entry. if atMs - timestamp entry < 0 then total
                              else jsAdd total (remaining atMs entry)) (Fin acc) es =
         Fin (acc + sum_list (map (residual atMs) es))"
  using assms
proof (induction es arbitrary: acc)
  case Nil
  then show ?case by simp
next
  case (Cons e es)
  show ?case
  proof (cases "atMs < timestamp e")
    case True
    then have "residual atMs e = 0" by (simp add: residual_def)
    then show ?thesis using True Cons by simp
  next
    case False
    then have "remaining atMs e = Fin (residual atMs e)"
      using Cons.prems by (simp add: remaining_fin)
    then show ?thesis using False Cons by (simp add: add.assoc)
  qed
qed

lemma round1_Fin: "jsDiv (jsRound (jsMul (Fin x) (Fin 10))) (Fin 10) = Fin (of_int \<lfloor>x * 10 + 1 / 2\<rfloor> / 10)"
  by simp

lemma calculateCaffeineLevel_formula:
  assumes "\<forall>e\<in>set es. isFin (amountMg e)"
  shows "calculateCaffeineLevel clk es (Some atMs) =
         Fin (of_int \<lfloor>sum_list (map (residual atMs) es) * 10 + 1 / 2\<rfloor> / 10)"
  unfolding calculateCaffeineLevel_def Let_def option.case level_fold[OF assms] round1_Fin
  by simp

lemma calculateCaffeineLevel_now:
  "calculateCaffeineLevel clk es None = calculateCaffeineLevel clk es (Some (nowMs clk))"
  by (simp add: calculateCaffeineLevel_def)




section \<open>The caffeine level\<close>








lemma timelineLoop_map:
  "0 \<le> i \<Longrightarrow> i \<le> 49 \<Longrightarrow>
   timelineLoop clk es st i acc = acc @ map (\<lambda>k. timelinePoint clk es st (int k)) [nat i..<49]"
proof (induction clk es st i acc rule: timelineLoop.induct)
  case (1 clk es st i acc)
  show ?case
  proof (cases "i < 49")
    case True
    have u: "[nat i..<49] = nat i # [nat (i + 1)..<49]"
      using True 1(2) by (simp add: upt_conv_Cons nat_add_distrib)
    have "timelineLoop clk es st i acc =
          timelineLoop clk es st (i + 1) (acc @ [timelinePoint clk es st i])"
      using True by (subst timelineLoop.simps) (simp add: timelinePoint_def)
    also have "\<dots> = (acc @ [timelinePoint clk es st i]) @
          map (\<lambda>k. timelinePoint clk es st (int k)) [nat (i + 1)..<49]"
      using True 1(2) by (intro 1(1)[unfolded timelinePoint_def[symmetric]]) simp_all
    finally show ?thesis using 1(2) by (simp add: u)
  next
    case False
    then have "i = 49" using 1(3) by simp
    then show ?thesis by (subst timelineLoop.simps) simp
  qed
qed

lemma round_half_int: "\<lfloor>real_of_int z + 1 / 2\<rfloor> = z"
  by linarith

lemma hour_value:
  "jsDiv (jsRound (jsMul (Fin (of_int i * 0.5)) (Fin 100))) (Fin 100) = Fin (of_int i / 2)"
proof -
  have "real_of_int i * 0.5 * 100 = real_of_int (i * 50)" by simp
  then have "\<lfloor>real_of_int i * 0.5 * 100 + 1 / 2\<rfloor> = i * 50"
    by (simp only: round_half_int)
  then show ?thesis by simp
qed

lemma round1_idem:
  "jsDiv (jsRound (jsMul (jsDiv (jsRound (jsMul x (Fin 10))) (Fin 10)) (Fin 10))) (Fin 10) =
   jsDiv (jsRound (jsMul x (Fin 10))) (Fin 10)"
proof (cases x)
  case (Fin a)
  have "real_of_int \<lfloor>a * 10 + 1 / 2\<rfloor> / 10 * 10 = real_of_int \<lfloor>a * 10 + 1 / 2\<rfloor>" by simp
  then have "\<lfloor>real_of_int \<lfloor>a * 10 + 1 / 2\<rfloor> / 10 * 10 + 1 / 2\<rfloor> = \<lfloor>a * 10 + 1 / 2\<rfloor>"
    by (simp only: round_half_int)
  then show ?thesis using Fin by simp
qed simp_all

lemma level_rounded:
  "jsDiv (jsRound (jsMul (calculateCaffeineLevel clk es t) (Fin 10))) (Fin 10) =
   calculateCaffeineLevel clk es t"
  unfolding calculateCaffeineLevel_def Let_def by (rule round1_idem)

lemma timelinePoint_value:
  "timelinePoint clk es st i =
     \<lparr>hour = Fin (of_int i / 2), level = calculateCaffeineLevel clk es (Some (st + i * 1800000))\<rparr>"
  unfolding timelinePoint_def hour_value level_rounded by (simp add: mult.commute)

lemma minList_Min:
  assumes "xs \<noteq> []"
  shows "minList xs = Min (set xs)"
proof -
  from assms obtain y ys where xs: "xs = y # ys" by (cases xs) auto
  have "foldl min y ys = fold min ys y"
    by (simp add: foldl_conv_fold min.commute)
  moreover have "Min (set (y # ys)) = fold min ys y" by (rule Min.set_eq_fold)
  ultimately show ?thesis unfolding minList_def xs by simp
qed

lemma setMinutes0_anchor:
  "setMinutes0 clk t \<le> t" "t < setMinutes0 clk t + msPerHour"
  "(setMinutes0 clk t + tzOffsetMs clk) mod msPerHour = 0"
proof -
  have b: "0 \<le> (t + tzOffsetMs clk) mod msPerHour" "(t + tzOffsetMs clk) mod msPerHour < msPerHour"
    by (simp_all add: msPerHour_def)
  show "setMinutes0 clk t \<le> t" "t < setMinutes0 clk t + msPerHour"
    using b by (simp_all add: setMinutes0_def)
  have "setMinutes0 clk t + tzOffsetMs clk = (t + tzOffsetMs clk) - (t + tzOffsetMs clk) mod msPerHour"
    by (simp add: setMinutes0_def)
  then show "(setMinutes0 clk t + tzOffsetMs clk) mod msPerHour = 0"
    by (simp add: minus_mod_eq_mult_div)
qed

lemma timeline_nonempty:
  assumes "es \<noteq> []"
  shows "calculateCaffeineTimeline clk es =
     map (\<lambda>k. \<lparr>hour = Fin (real k / 2),
                level = calculateCaffeineLevel clk es
                  (Some (setMinutes0 clk (Min (timestamp ` set es)) + int k * 1800000))\<rparr>) [0..<49]"
proof -
  have m: "minList (map timestamp es) = Min (timestamp ` set es)"
    using assms by (simp add: minList_Min)
  show ?thesis
    using assms by (simp add: calculateCaffeineTimeline_def Let_def m timelineLoop_map timelinePoint_value)
qed

section \<open>The caffeine timeline\<close>

text \<open>
  Claim C7.  \<^verbatim>\<open>calculateCaffeineTimeline\<close> returns nothing for no entries.  For a non-empty
  list it returns 49 points; point \<open>i\<close> carries the hour offset \<open>i * 0.5\<close> and the level that
  \<^verbatim>\<open>calculateCaffeineLevel\<close> gives (rounded to one decimal) at the instant \<open>i\<close> times 30
  minutes after the start, and the start is the beginning of the local clock hour that
  contains the earliest timestamp.
\<close>

theorem calculateCaffeineTimeline_points:
  "calculateCaffeineTimeline clk [] = [] \<and>
   (es \<noteq> [] \<longrightarrow>
      length (calculateCaffeineTimeline clk es) = 49 \<and>
      (\<forall>i<49. calculateCaffeineTimeline clk es ! i =
         \<lparr>hour = Fin (real i * 0.5),
          level = calculateCaffeineLevel clk es
            (Some (setMinutes0 clk (Min (timestamp ` set es)) + int i * (30 * 60 * 1000)))\<rparr>) \<and>
      setMinutes0 clk (Min (timestamp ` set es)) \<le> Min (timestamp ` set es) \<and>
      Min (timestamp ` set es) < setMinutes0 clk (Min (timestamp ` set es)) + msPerHour \<and>
      (setMinutes0 clk (Min (timestamp ` set es)) + tzOffsetMs clk) mod msPerHour = 0)"
proof (intro conjI impI allI)
  show "calculateCaffeineTimeline clk [] = []"
    by (simp add: calculateCaffeineTimeline_def)
next
  assume ne: "es \<noteq> []"
  show "length (calculateCaffeineTimeline clk es) = 49"
    by (simp add: timeline_nonempty[OF ne])
next
  fix i :: nat
  assume ne: "es \<noteq> []" and i: "i < 49"
  show "calculateCaffeineTimeline clk es ! i =
         \<lparr>hour = Fin (real i * 0.5),
          level = calculateCaffeineLevel clk es
            (Some (setMinutes0 clk (Min (timestamp ` set es)) + int i * (30 * 60 * 1000)))\<rparr>"
    using i by (simp add: timeline_nonempty[OF ne])
next
  show "setMinutes0 clk (Min (timestamp ` set es)) \<le> Min (timestamp ` set es)"
    by (rule setMinutes0_anchor)
  show "Min (timestamp ` set es) < setMinutes0 clk (Min (timestamp ` set es)) + msPerHour"
    by (rule setMinutes0_anchor)
  show "(setMinutes0 clk (Min (timestamp ` set es)) + tzOffsetMs clk) mod msPerHour = 0"
    by (rule setMinutes0_anchor)
qed

theorem calculateCaffeineTimeline_points_witness:
  "length (calculateCaffeineTimeline clk0 [mkEntry ''e1'' 1709339400000 100]) = 49 \<and>
   calculateCaffeineTimeline clk0 [mkEntry ''e1'' 1709339400000 100] ! 0 =
     \<lparr>hour = Fin 0, level = Fin 0\<rparr> \<and>
   calculateCaffeineTimeline clk0 [mkEntry ''e1'' 1709339400000 100] ! 11 =
     \<lparr>hour = Fin 5.5, level = Fin 50\<rparr> \<and>
   setMinutes0 clk0 (Min (timestamp ` set [mkEntry ''e1'' 1709339400000 100])) = 1709337600000"
proof -
  let ?es = "[mkEntry ''e1'' 1709339400000 100]"
  have ne: "?es \<noteq> []" by simp
  note T = calculateCaffeineTimeline_points[of clk0 ?es, THEN conjunct2, THEN mp, OF ne]
  have st: "setMinutes0 clk0 (Min (timestamp ` set ?es)) = 1709337600000"
    by (simp add: setMinutes0_def clk0_def msPerHour_def mkEntry_def)
  have f: "\<forall>e\<in>set ?es. isFin (amountMg e)" by (simp add: mkEntry_def isFin_def)
  have l0: "calculateCaffeineLevel clk0 ?es (Some 1709337600000) = Fin 0"
    unfolding calculateCaffeineLevel_formula[OF f] by (simp add: residual_def mkEntry_def)
  have l11: "calculateCaffeineLevel clk0 ?es (Some 1709357400000) = Fin 50"
    unfolding calculateCaffeineLevel_formula[OF f] by (simp add: residual_def mkEntry_def)
  have p0: "calculateCaffeineTimeline clk0 ?es ! 0 = \<lparr>hour = Fin 0, level = Fin 0\<rparr>"
    using T[THEN conjunct2, THEN conjunct1, rule_format, of 0] unfolding st by (simp add: l0)
  have p11: "calculateCaffeineTimeline clk0 ?es ! 11 = \<lparr>hour = Fin 5.5, level = Fin 50\<rparr>"
    using T[THEN conjunct2, THEN conjunct1, rule_format, of 11] unfolding st by (simp add: l11)
  show ?thesis
    using T[THEN conjunct1] p0 p11 st by (intro conjI)
qed

lemma foldl_jsAdd_fin:
  assumes "\<forall>x\<in>set xs. isFin (f x)"
  shows "foldl (\<lambda>acc d. jsAdd acc (f d)) (Fin a) xs = Fin (a + sum_list (map (realOf \<circ> f) xs))"
  using assms
proof (induction xs arbitrary: a)
  case Nil
  then show ?case by simp
next
  case (Cons x xs)
  then obtain v where v: "f x = Fin v" using isFin_realOf[of "f x"] by auto
  show ?case using Cons by (simp add: v add.assoc)
qed

lemma find_fin:
  assumes "\<forall>r\<in>set records. isFin (hoursSlept r)"
  shows "isFin (case find P records of Some r \<Rightarrow> hoursSlept r | None \<Rightarrow> Fin 0)"
proof (cases "find P records")
  case None
  then show ?thesis by (simp add: isFin_def)
next
  case (Some r)
  then have "r \<in> set records" by (auto simp: find_Some_iff)
  then show ?thesis using assms Some by simp
qed

lemma debtDay_fin:
  assumes "\<forall>r\<in>set records. isFin (hoursSlept r)"
  shows "isFin (dayHours (debtDay clk records (Fin rec) i))"
    and "debt (debtDay clk records (Fin rec) i) =
         Fin (max 0 (rec - realOf (dayHours (debtDay clk records (Fin rec) i))))"
proof -
  show f: "isFin (dayHours (debtDay clk records (Fin rec) i))"
    unfolding debtDay_hours using assms by (rule find_fin)
  obtain h where h: "dayHours (debtDay clk records (Fin rec) i) = Fin h"
    using isFin_realOf[OF f] by blast
  show "debt (debtDay clk records (Fin rec) i) =
         Fin (max 0 (rec - realOf (dayHours (debtDay clk records (Fin rec) i))))"
    unfolding debtDay_debt h by simp
qed

lemma debtDay_no_record:
  assumes "\<forall>r\<in>set records. date r \<noteq> day (debtDay clk records rh i)"
  shows "dayHours (debtDay clk records rh i) = Fin 0"
proof -
  have "find (\<lambda>r. date r = day (debtDay clk records rh i)) records = None"
    using assms by (simp add: find_None_iff)
  then show ?thesis by (simp add: debtDay_hours)
qed

lemma totalDebt_struct:
  "totalDebt (calculateSleepDebt clk records rh) =
     round2 (foldl (\<lambda>acc d. jsAdd acc (debt d)) (Fin 0) (daily (calculateSleepDebt clk records rh)))"
  by (simp add: calculateSleepDebt_def Let_def)

lemma avgHours_struct:
  "avgHours (calculateSleepDebt clk records rh) =
     (if length (filter (\<lambda>d. jsGt (dayHours d) (Fin 0)) (daily (calculateSleepDebt clk records rh))) > 0
      then round2 (jsDiv (foldl (\<lambda>acc d. jsAdd acc (dayHours d)) (Fin 0)
                     (filter (\<lambda>d. jsGt (dayHours d) (Fin 0)) (daily (calculateSleepDebt clk records rh))))
              (Fin (real (length (filter (\<lambda>d. jsGt (dayHours d) (Fin 0))
                     (daily (calculateSleepDebt clk records rh)))))))
      else Fin 0)"
  by (simp add: calculateSleepDebt_def Let_def)

lemma daily_members:
  assumes "x \<in> set (daily (calculateSleepDebt clk records rh))"
  obtains i where "x = debtDay clk records rh i"
  using assms unfolding daily_eq by auto

lemma daily_fin:
  assumes "\<forall>r\<in>set records. isFin (hoursSlept r)"
    and "x \<in> set (daily (calculateSleepDebt clk records (Fin rec)))"
  shows "isFin (dayHours x)" "debt x = Fin (max 0 (rec - realOf (dayHours x)))" "isFin (debt x)"
proof -
  from assms(2) obtain i where x: "x = debtDay clk records (Fin rec) i" by (rule daily_members)
  show "isFin (dayHours x)" unfolding x using assms(1) by (rule debtDay_fin)
  show d: "debt x = Fin (max 0 (rec - realOf (dayHours x)))" unfolding x using assms(1) by (rule debtDay_fin)
  show "isFin (debt x)" unfolding d by (simp add: isFin_def)
qed

lemma totalDebt_formula:
  assumes "\<forall>r\<in>set records. isFin (hoursSlept r)"
  shows "totalDebt (calculateSleepDebt clk records (Fin rec)) =
     Fin (of_int \<lfloor>sum_list (map (realOf \<circ> debt) (daily (calculateSleepDebt clk records (Fin rec)))) * 100 + 1 / 2\<rfloor> / 100)"
proof -
  let ?L = "daily (calculateSleepDebt clk records (Fin rec))"
  have f: "\<forall>x\<in>set ?L. isFin (debt x)" using daily_fin(3)[OF assms] by blast
  have "totalDebt (calculateSleepDebt clk records (Fin rec)) =
        round2 (foldl (\<lambda>acc d. jsAdd acc (debt d)) (Fin 0) ?L)"
    by (rule totalDebt_struct)
  also have "\<dots> = round2 (Fin (0 + sum_list (map (realOf \<circ> debt) ?L)))"
    by (simp only: foldl_jsAdd_fin[OF f])
  finally show ?thesis by (simp add: round2_Fin)
qed

lemma avgHours_formula:
  assumes "\<forall>r\<in>set records. isFin (hoursSlept r)"
  shows "avgHours (calculateSleepDebt clk records (Fin rec)) =
     (let ds = filter (\<lambda>x. 0 < realOf (dayHours x)) (daily (calculateSleepDebt clk records (Fin rec)))
      in if ds = [] then Fin 0
         else Fin (of_int \<lfloor>sum_list (map (realOf \<circ> dayHours) ds) / real (length ds) * 100 + 1 / 2\<rfloor> / 100))"
proof -
  let ?L = "daily (calculateSleepDebt clk records (Fin rec))"
  let ?ds = "filter (\<lambda>x. 0 < realOf (dayHours x)) ?L"
  have g: "\<And>x. x \<in> set ?L \<Longrightarrow> jsGt (dayHours x) (Fin 0) = (0 < realOf (dayHours x))"
  proof -
    fix x assume "x \<in> set ?L"
    then obtain h where "dayHours x = Fin h"
      using daily_fin(1)[OF assms] isFin_realOf by blast
    then show "jsGt (dayHours x) (Fin 0) = (0 < realOf (dayHours x))" by simp
  qed
  have ff: "filter (\<lambda>d. jsGt (dayHours d) (Fin 0)) ?L = ?ds"
    by (rule filter_cong) (simp_all add: g)
  have f: "\<forall>x\<in>set ?ds. isFin (dayHours x)" using daily_fin(1)[OF assms] by auto
  have a: "avgHours (calculateSleepDebt clk records (Fin rec)) =
      (if length ?ds > 0
       then round2 (jsDiv (foldl (\<lambda>acc d. jsAdd acc (dayHours d)) (Fin 0) ?ds) (Fin (real (length ?ds))))
       else Fin 0)"
    unfolding ff[symmetric] by (rule avgHours_struct)
  show ?thesis
  proof (cases "?ds = []")
    case True
    then show ?thesis unfolding a Let_def by (simp del: daily_eq)
  next
    case False
    then have n: "real (length ?ds) \<noteq> 0" by simp
    have "jsDiv (foldl (\<lambda>acc d. jsAdd acc (dayHours d)) (Fin 0) ?ds) (Fin (real (length ?ds))) =
          Fin (sum_list (map (realOf \<circ> dayHours) ?ds) / real (length ?ds))"
      unfolding foldl_jsAdd_fin[OF f] using n by simp
    then show ?thesis unfolding a Let_def using False by (simp add: round2_Fin)
  qed
qed


lemma map_day:
  "map day (daily (calculateSleepDebt clk records rh)) =
   map (\<lambda>i. dayString (localDay clk (nowMs clk) - i)) [6, 5, 4, 3, 2, 1, 0]"
  by (simp add: daily_eq debtDay_day)


lemma avgHours_map:
  "avgHours (calculateSleepDebt clk records rh) =
     (if length (filter (\<lambda>h. jsGt h (Fin 0)) (map dayHours (daily (calculateSleepDebt clk records rh)))) > 0
      then round2 (jsDiv (foldl jsAdd (Fin 0)
                     (filter (\<lambda>h. jsGt h (Fin 0)) (map dayHours (daily (calculateSleepDebt clk records rh)))))
              (Fin (real (length (filter (\<lambda>h. jsGt h (Fin 0))
                     (map dayHours (daily (calculateSleepDebt clk records rh))))))))
      else Fin 0)"
  unfolding avgHours_struct filter_map foldl_map length_map comp_def ..


lemma days_clk0:
  "map day (daily (calculateSleepDebt clk0 records rh)) =
     [''2024-02-25'', ''2024-02-26'', ''2024-02-27'', ''2024-02-28'', ''2024-02-29'',
      ''2024-03-01'', ''2024-03-02'']"
  unfolding map_day localDay_clk0 by (simp add: dayString_values)

lemma map_hours:
  "map dayHours (daily (calculateSleepDebt clk records rh)) =
   map (\<lambda>s. case find (\<lambda>r. date r = s) records of Some r \<Rightarrow> hoursSlept r | None \<Rightarrow> Fin 0)
     (map day (daily (calculateSleepDebt clk records rh)))"
  by (simp add: daily_eq debtDay_hours)



section \<open>The sleep-debt report\<close>








lemma today_clk0: "getTodayISO clk0 = ''2024-03-02''"
  by (simp add: getTodayISO_def isoDate_dayString localDay_clk0 dayString_values)

lemma sevenDaysAgo_clk0:
  "isoDate clk0 (setDate clk0 (nowMs clk0) (getDate clk0 (nowMs clk0) - 7)) = ''2024-02-24''"
  unfolding isoDate_setDate localDay_clk0 by (simp add: dayString_values)

lemma weekRecords_clk0:
  "weekRecords clk0 rs =
     filter (\<lambda>r. strGe (date r) ''2024-02-24'' \<and> strLe (date r) ''2024-03-02'') rs"
  unfolding weekRecords_def Let_def today_clk0 sevenDaysAgo_clk0 ..

lemma weekRecords_old: "weekRecords clk0 recsOld = recsOld"
  unfolding weekRecords_clk0 by (simp add: recsOld_def mkRecord_def strGe_def strLe_def)

lemma weekRecords_zero: "weekRecords clk0 recsZero = recsZero"
  unfolding weekRecords_clk0 by (simp add: recsZero_def mkRecord_def strGe_def strLe_def)

lemma weekAverage_old: "weekAverage clk0 recsOld = Fin 4"
  unfolding weekAverage_def Let_def weekRecords_old
  by (simp add: recsOld_def mkRecord_def round2_Fin)

lemma weekAverage_zero: "weekAverage clk0 recsZero = Fin 3"
  unfolding weekAverage_def Let_def weekRecords_zero
  by (simp add: recsZero_def mkRecord_def round2_Fin)

lemma avgHoursThisWeek_stats: "avgHoursThisWeek (stats clk rs es rh) = weekAverage clk rs"
  by (simp add: stats_def Let_def)

section \<open>The weekly average of the statistics\<close>

text \<open>
  Claim C3.  The memo \<^verbatim>\<open>stats\<close> keeps the records dated from \<^verbatim>\<open>now.getDate() - 7\<close> to
  today, both included: eight calendar days, where its comment says "Records from the
  last 7 days" and \<^verbatim>\<open>calculateSleepDebt\<close> builds seven.  On 2 March 2024 a single record
  dated 24 February, with 4 hours, gives a weekly average of 4, though 24 February is none
  of the seven days of the debt window, whose average is 0.  A record of zero hours
  inside the window does count: 0 and 6 hours average to 3.
\<close>

theorem weekAverage_eight_days:
  "avgHoursThisWeek (stats clk0 recsOld [] (Fin 8)) = Fin 4 \<and>
   map date recsOld = [''2024-02-24''] \<and>
   getTodayISO clk0 = ''2024-03-02'' \<and>
   map day (daily (calculateSleepDebt clk0 recsOld (Fin 8))) =
     [''2024-02-25'', ''2024-02-26'', ''2024-02-27'', ''2024-02-28'', ''2024-02-29'',
      ''2024-03-01'', ''2024-03-02''] \<and>
   avgHours (calculateSleepDebt clk0 recsOld (Fin 8)) = Fin 0 \<and>
   avgHoursThisWeek (stats clk0 recsZero [] (Fin 8)) = Fin 3"
proof -
  have a: "avgHours (calculateSleepDebt clk0 recsOld (Fin 8)) = Fin 0"
    unfolding avgHours_map map_hours days_clk0 by (simp add: recsOld_def mkRecord_def)
  have d: "map date recsOld = [''2024-02-24'']" by (simp add: recsOld_def mkRecord_def)
  show ?thesis
    unfolding avgHoursThisWeek_stats weekAverage_old weekAverage_zero today_clk0 days_clk0
    using a d by (intro conjI refl)
qed

theorem weekAverage_eight_days_witness:
  "avgHoursThisWeek (stats clk0 recsOld [] (Fin 8)) \<noteq>
   avgHours (calculateSleepDebt clk0 recsOld (Fin 8))"
proof -
  note T = weekAverage_eight_days
  have "avgHoursThisWeek (stats clk0 recsOld [] (Fin 8)) = Fin 4"
    using T by (rule conjunct1)
  moreover have "avgHours (calculateSleepDebt clk0 recsOld (Fin 8)) = Fin 0"
    using T[THEN conjunct2, THEN conjunct2, THEN conjunct2, THEN conjunct2] by (rule conjunct1)
  ultimately show ?thesis by simp
qed

lemma getDay_setDate:
  "getDay clk (setDate clk t (getDate clk t - i)) = (localDay clk t - i + 4) mod 7"
  by (simp only: getDay_def setDate_back localDay_shift)

lemma debtDay_localDay:
  "debtDay clk records rh i =
     (let dateStr = dayString (localDay clk (nowMs clk) - i);
          hrs = (case find (\<lambda>r. date r = dateStr) records of
                   Some r \<Rightarrow> hoursSlept r | None \<Rightarrow> Fin 0)
      in \<lparr>day = dateStr,
          dayLabel = DAY_LABELS ! nat ((localDay clk (nowMs clk) - i + 4) mod 7),
          dayHours = hrs,
          debt = jsMax (Fin 0) (jsSub rh hrs)\<rparr>)"
  unfolding debtDay_def Let_def isoDate_setDate getDay_setDate ..

lemma debtDay_same_day:
  assumes "localDay c1 (nowMs c1) = localDay c2 (nowMs c2)"
  shows "debtDay c1 records rh i = debtDay c2 records rh i"
  unfolding debtDay_localDay assms ..

lemma calculateSleepDebt_same_day:
  assumes "localDay c1 (nowMs c1) = localDay c2 (nowMs c2)"
  shows "calculateSleepDebt c1 records rh = calculateSleepDebt c2 records rh"
proof -
  have "debtDay c1 records rh = debtDay c2 records rh"
    using debtDay_same_day[OF assms] by (intro ext)
  then show ?thesis
    unfolding calculateSleepDebt_def last7DaysLoop_unfold by simp
qed

lemma toDateString_localDay:
  assumes "localDay c1 t1 = localDay c2 t2"
  shows "toDateString c1 t1 = toDateString c2 t2"
  unfolding toDateString_def getDay_def getMonth_def getDate_def getFullYear_def assms ..

lemma eveningEntries_same:
  assumes "tzOffsetMs c1 = tzOffsetMs c2" "localDay c1 (nowMs c1) = localDay c2 (nowMs c2)"
  shows "eveningEntries c1 es = eveningEntries c2 es"
proof -
  have a: "\<And>t. localDay c1 t = localDay c2 t" by (simp add: localDay_def assms(1))
  have b: "\<And>t. toDateString c1 t = toDateString c2 t" using a by (rule toDateString_localDay)
  have c: "toDateString c1 (nowMs c1) = toDateString c2 (nowMs c2)"
    using assms(2) by (rule toDateString_localDay)
  have d: "\<And>t. getHours c1 t = getHours c2 t" by (simp add: getHours_def assms(1))
  have c': "toDateString c2 (nowMs c1) = toDateString c2 (nowMs c2)"
    using c unfolding b .
  show ?thesis unfolding eveningEntries_def b c' d ..
qed

lemma generateSleepTips_same:
  assumes "tzOffsetMs c1 = tzOffsetMs c2" "localDay c1 (nowMs c1) = localDay c2 (nowMs c2)"
  shows "generateSleepTips c1 st es = generateSleepTips c2 st es"
  unfolding generateSleepTips_def allTips_def eveningEntries_same[OF assms] ..

lemma calculateCaffeineLevel_explicit:
  "calculateCaffeineLevel c1 es (Some t) = calculateCaffeineLevel c2 es (Some t)"
  by (simp add: calculateCaffeineLevel_def)

lemma calculateCaffeineLevel_same_instant:
  "nowMs c1 = nowMs c2 \<Longrightarrow> calculateCaffeineLevel c1 es None = calculateCaffeineLevel c2 es None"
  by (simp add: calculateCaffeineLevel_def)

lemma timelineLoop_same:
  "0 \<le> i \<Longrightarrow> i \<le> 49 \<Longrightarrow> timelineLoop c1 es st i acc = timelineLoop c2 es st i acc"
  unfolding timelineLoop_map timelinePoint_def calculateCaffeineLevel_explicit[of c1 es _ c2] ..

lemma calculateCaffeineTimeline_same_zone:
  assumes "tzOffsetMs c1 = tzOffsetMs c2"
  shows "calculateCaffeineTimeline c1 es = calculateCaffeineTimeline c2 es"
proof -
  have s: "\<And>t. setMinutes0 c1 t = setMinutes0 c2 t" by (simp add: setMinutes0_def assms)
  show ?thesis
    unfolding calculateCaffeineTimeline_def Let_def s
    using timelineLoop_same[of 0 c1 es _ "[]" c2] by simp
qed

lemma localDay_clk1: "localDay clk1 (nowMs clk1) = 19785"
  by (simp add: localDay_def clk1_def msPerDay_def)

lemma localDay_clkEvening: "localDay clkEvening (nowMs clkEvening) = 19784"
  by (simp add: localDay_def clkEvening_def msPerDay_def)

lemma days_clk1:
  "map day (daily (calculateSleepDebt clk1 records rh)) =
     [''2024-02-26'', ''2024-02-27'', ''2024-02-28'', ''2024-02-29'', ''2024-03-01'',
      ''2024-03-02'', ''2024-03-03'']"
  unfolding map_day localDay_clk1 by (simp add: dayString_values)

lemma evening_next_day:
  "eveningEntries clk1 [mkEntry ''e1'' 1709366400000 95] = []"
  by code_simp

lemma titles_evening:
  "map title (generateSleepTips clkEvening statsAll [mkEntry ''e1'' 1709366400000 95]) =
     [CaffeineHigh, DebtSevere, ShortSleep, RegularBedtime, LateCaffeine, BlueLight,
      RoomTemperature, SleepVariance]"
  unfolding generateSleepTips_titles
  using evening_example by (simp add: cascadeOrder_def tipApplies_def statsAll_def)

lemma titles_next_day:
  "map title (generateSleepTips clk1 statsAll [mkEntry ''e1'' 1709366400000 95]) =
     [CaffeineHigh, DebtSevere, ShortSleep, RegularBedtime, BlueLight,
      RoomTemperature, SleepVariance, RegularExercise]"
  unfolding generateSleepTips_titles
  by (simp add: cascadeOrder_def tipApplies_def statsAll_def evening_next_day)

lemma level_clk0_none:
  "calculateCaffeineLevel clk0 [mkEntry ''e1'' 1709407800000 100] None = Fin 0"
proof -
  have f: "\<forall>e\<in>set [mkEntry ''e1'' 1709407800000 100]. isFin (amountMg e)"
    by (simp add: mkEntry_def isFin_def)
  show ?thesis
    unfolding calculateCaffeineLevel_now calculateCaffeineLevel_formula[OF f]
    by (simp add: residual_def mkEntry_def clk0_def)
qed

lemma level_clk1_none:
  "calculateCaffeineLevel clk1 [mkEntry ''e1'' 1709407800000 100] None = Fin 50"
proof -
  have f: "\<forall>e\<in>set [mkEntry ''e1'' 1709407800000 100]. isFin (amountMg e)"
    by (simp add: mkEntry_def isFin_def)
  show ?thesis
    unfolding calculateCaffeineLevel_now calculateCaffeineLevel_formula[OF f]
    by (simp add: residual_def mkEntry_def clk1_def)
qed

section \<open>What the engine reads from the host\<close>

text \<open>
  Claim C4 says that every engine function depends on its explicit inputs alone.
  \<^verbatim>\<open>calculateSleepDebt\<close> and \<^verbatim>\<open>generateSleepTips\<close> call \<^verbatim>\<open>new Date()\<close>, and so does
  \<^verbatim>\<open>calculateCaffeineLevel\<close> when \<^verbatim>\<open>atTime\<close> is left out: with the same inputs, each of
  the three returns something else on the next day.
\<close>

theorem engine_reads_clock_counterexample:
  "calculateSleepDebt clk0 [] (Fin 8) \<noteq> calculateSleepDebt clk1 [] (Fin 8) \<and>
   generateSleepTips clkEvening statsAll [mkEntry ''e1'' 1709366400000 95] \<noteq>
     generateSleepTips clk1 statsAll [mkEntry ''e1'' 1709366400000 95] \<and>
   calculateCaffeineLevel clk0 [mkEntry ''e1'' 1709407800000 100] None \<noteq>
     calculateCaffeineLevel clk1 [mkEntry ''e1'' 1709407800000 100] None"
proof -
  have a: "calculateSleepDebt clk0 [] (Fin 8) \<noteq> calculateSleepDebt clk1 [] (Fin 8)"
  proof
    assume "calculateSleepDebt clk0 [] (Fin 8) = calculateSleepDebt clk1 [] (Fin 8)"
    then have "map day (daily (calculateSleepDebt clk0 [] (Fin 8))) =
               map day (daily (calculateSleepDebt clk1 [] (Fin 8)))" by simp
    then show False unfolding days_clk0 days_clk1 by simp
  qed
  have b: "generateSleepTips clkEvening statsAll [mkEntry ''e1'' 1709366400000 95] \<noteq>
     generateSleepTips clk1 statsAll [mkEntry ''e1'' 1709366400000 95]"
  proof
    assume "generateSleepTips clkEvening statsAll [mkEntry ''e1'' 1709366400000 95] =
     generateSleepTips clk1 statsAll [mkEntry ''e1'' 1709366400000 95]"
    then have "map title (generateSleepTips clkEvening statsAll [mkEntry ''e1'' 1709366400000 95]) =
     map title (generateSleepTips clk1 statsAll [mkEntry ''e1'' 1709366400000 95])" by simp
    then show False unfolding titles_evening titles_next_day by simp
  qed
  have c: "calculateCaffeineLevel clk0 [mkEntry ''e1'' 1709407800000 100] None \<noteq>
     calculateCaffeineLevel clk1 [mkEntry ''e1'' 1709407800000 100] None"
    unfolding level_clk0_none level_clk1_none by simp
  show ?thesis using a b c by (intro conjI)
qed

text \<open>
  Claim C4, amended.  Each engine function is a function of its explicit inputs and of
  what it reads from the host.  \<^verbatim>\<open>calculateOptimalTimes\<close> reads nothing (it has no clock
  parameter here), and neither does \<^verbatim>\<open>calculateCaffeineLevel\<close> given \<^verbatim>\<open>atTime\<close>; without
  \<^verbatim>\<open>atTime\<close> it reads the current instant.  \<^verbatim>\<open>calculateCaffeineTimeline\<close> reads the time
  zone only.  \<^verbatim>\<open>calculateSleepDebt\<close> reads the current local calendar day only, and
  \<^verbatim>\<open>generateSleepTips\<close> the time zone and the current local calendar day: two calls with
  the same inputs on the same local day in the same zone return the same.
\<close>

theorem engine_reads_clock:
  "calculateCaffeineLevel c1 es (Some t) = calculateCaffeineLevel c2 es (Some t) \<and>
   (nowMs c1 = nowMs c2 \<longrightarrow>
      calculateCaffeineLevel c1 es None = calculateCaffeineLevel c2 es None) \<and>
   (tzOffsetMs c1 = tzOffsetMs c2 \<longrightarrow>
      calculateCaffeineTimeline c1 es = calculateCaffeineTimeline c2 es) \<and>
   (localDay c1 (nowMs c1) = localDay c2 (nowMs c2) \<longrightarrow>
      calculateSleepDebt c1 records rh = calculateSleepDebt c2 records rh) \<and>
   (tzOffsetMs c1 = tzOffsetMs c2 \<and> localDay c1 (nowMs c1) = localDay c2 (nowMs c2) \<longrightarrow>
      generateSleepTips c1 st es = generateSleepTips c2 st es)"
proof (intro conjI impI)
  show "calculateCaffeineLevel c1 es (Some t) = calculateCaffeineLevel c2 es (Some t)"
    by (rule calculateCaffeineLevel_explicit)
  show "nowMs c1 = nowMs c2 \<Longrightarrow> calculateCaffeineLevel c1 es None = calculateCaffeineLevel c2 es None"
    by (rule calculateCaffeineLevel_same_instant)
  show "tzOffsetMs c1 = tzOffsetMs c2 \<Longrightarrow> calculateCaffeineTimeline c1 es = calculateCaffeineTimeline c2 es"
    by (rule calculateCaffeineTimeline_same_zone)
  show "localDay c1 (nowMs c1) = localDay c2 (nowMs c2) \<Longrightarrow>
      calculateSleepDebt c1 records rh = calculateSleepDebt c2 records rh"
    by (rule calculateSleepDebt_same_day)
  show "tzOffsetMs c1 = tzOffsetMs c2 \<and> localDay c1 (nowMs c1) = localDay c2 (nowMs c2) \<Longrightarrow>
      generateSleepTips c1 st es = generateSleepTips c2 st es"
    by (elim conjE) (rule generateSleepTips_same)
qed

theorem engine_reads_clock_witness:
  "nowMs clk0 \<noteq> nowMs clkEvening \<and>
   calculateSleepDebt clk0 recs3 (Fin 8) = calculateSleepDebt clkEvening recs3 (Fin 8) \<and>
   generateSleepTips clk0 statsAll [mkEntry ''e1'' 1709366400000 95] =
     generateSleepTips clkEvening statsAll [mkEntry ''e1'' 1709366400000 95] \<and>
   calculateCaffeineTimeline clk0 [mkEntry ''e1'' 1709366400000 95] =
     calculateCaffeineTimeline clkEvening [mkEntry ''e1'' 1709366400000 95]"
proof -
  have z: "tzOffsetMs clk0 = tzOffsetMs clkEvening" by (simp add: clk0_def clkEvening_def)
  have d: "localDay clk0 (nowMs clk0) = localDay clkEvening (nowMs clkEvening)"
    by (simp add: localDay_clk0 localDay_clkEvening)
  have n: "nowMs clk0 \<noteq> nowMs clkEvening" by (simp add: clk0_def clkEvening_def)
  note T = engine_reads_clock[of clk0 "[mkEntry ''e1'' 1709366400000 95]" 0 clkEvening recs3 "Fin 8" statsAll]
  note T3 = T[THEN conjunct2, THEN conjunct2]
  show ?thesis
    using n T3[THEN conjunct1, THEN mp, OF z] T3[THEN conjunct2, THEN conjunct1, THEN mp, OF d]
      T3[THEN conjunct2, THEN conjunct2, THEN mp, OF conjI[OF z d]]
    by (intro conjI)
qed

lemma averageTimeStr_struct:
  "averageTimeStr ts =
     (if ts = [] then ''00:00''
      else timeOfAngle
        (jsAtan2
          (jsDiv (foldl (\<lambda>acc r. jsAdd acc (jsSin r)) (Fin 0)
                    (map (\<lambda>t. jsMul (jsMul (jsDiv (timeToMinutes t) (Fin 1440)) (Fin 2)) (Fin pi)) ts))
                 (Fin (real (length ts))))
          (jsDiv (foldl (\<lambda>acc r. jsAdd acc (jsCos r)) (Fin 0)
                    (map (\<lambda>t. jsMul (jsMul (jsDiv (timeToMinutes t) (Fin 1440)) (Fin 2)) (Fin pi)) ts))
                 (Fin (real (length ts))))))"
  by (simp add: averageTimeStr_def timeOfAngle_def timeOfMinutes_def Let_def)

lemma rem60_values:
  "jsRem (Fin 0) (Fin 60) = Fin 0" "jsRem (Fin 720) (Fin 60) = Fin 0" "jsRem (Fin 1440) (Fin 60) = Fin 0"
  using jsRem_60[of 0] jsRem_60[of 720] jsRem_60[of 1440] by (simp_all del: jsRem.simps)

lemma rem24_values:
  "jsRem (Fin 24) (Fin 24) = Fin 0" "jsRem (Fin 0) (Fin 24) = Fin 0"
  using jsRem_24[of 24] jsRem_24[of 0] by (simp_all del: jsRem.simps)

lemma padTime_24: "padTime (Fin 24) (Fin 0) = ''00:00''"
proof -
  have "jsRem (jsAdd (jsRem (Fin 24) (Fin 24)) (Fin 24)) (Fin 24) = Fin 0"
    by (simp add: rem24_values del: jsRem.simps)
  then have "padTime (Fin 24) (Fin 0) = padTime (Fin 0) (Fin 0)"
    by (simp add: padTime_def rem24_values del: jsRem.simps numToString.simps)
  also have "\<dots> = ''00:00''"
    using padTime_clock[of 0 0] by (simp add: twoDigits_def digitChar_def)
  finally show ?thesis .
qed

lemma timeOfMinutes_0: "timeOfMinutes (Fin 0) = ''00:00''"
  using padTime_clock[of 0 0]
  by (simp add: timeOfMinutes_def rem60_values twoDigits_def digitChar_def del: jsRem.simps)

lemma timeOfMinutes_720: "timeOfMinutes (Fin 720) = ''12:00''"
  using padTime_clock[of 12 0]
  by (simp add: timeOfMinutes_def rem60_values twoDigits_def digitChar_def del: jsRem.simps)

lemma timeOfMinutes_1440: "timeOfMinutes (Fin 1440) = ''00:00''"
  by (simp add: timeOfMinutes_def rem60_values padTime_24 del: jsRem.simps)

lemma arctan_le_self:
  assumes "0 \<le> t"
  shows "arctan t \<le> t"
proof -
  have "(\<lambda>u. u - arctan u) 0 \<le> (\<lambda>u. u - arctan u) t"
  proof (rule DERIV_nonneg_imp_nondecreasing[OF assms])
    fix x :: real
    have d: "((\<lambda>u. u - arctan u) has_real_derivative 1 - inverse (1 + x\<^sup>2)) (at x)"
      by (intro derivative_intros DERIV_arctan)
    have "1 \<le> 1 + x\<^sup>2" by simp
    then have "inverse (1 + x\<^sup>2) \<le> 1" by (rule inverse_le_1_iff[THEN iffD2, OF disjI2])
    then have "0 \<le> 1 - inverse (1 + x\<^sup>2)" by simp
    with d show "\<exists>y. ((\<lambda>u. u - arctan u) has_real_derivative y) (at x) \<and> 0 \<le> y"
      by blast
  qed
  then show ?thesis by simp
qed

lemma arctan_abs_le: "\<bar>arctan t\<bar> \<le> \<bar>t\<bar>"
proof (cases "0 \<le> t")
  case True
  then have "arctan t \<le> t" by (rule arctan_le_self)
  then show ?thesis using True by simp
next
  case False
  then have "0 \<le> - t" by simp
  then have "arctan (- t) \<le> - t" by (rule arctan_le_self)
  moreover have "arctan t < 0" using False by (simp add: arctan_less_zero_iff)
  ultimately show ?thesis using False by (simp add: arctan_minus)
qed

lemma atan2_small:
  assumes "0 < x" "\<bar>y\<bar> \<le> x / 1000"
  shows "\<bar>atan2 y x\<bar> \<le> 1 / 1000"
proof -
  have "\<bar>y / x\<bar> \<le> 1 / 1000"
    using assms by (simp add: field_simps abs_if split: if_splits)
  moreover have "\<bar>arctan (y / x)\<bar> \<le> \<bar>y / x\<bar>" by (rule arctan_abs_le)
  ultimately have "\<bar>arctan (y / x)\<bar> \<le> 1 / 1000" by (rule order_trans[rotated])
  then show ?thesis using assms by (simp add: atan2_def)
qed

lemma round_minute_small:
  assumes "0 \<le> a" "a \<le> 1 / 1000"
  shows "\<lfloor>a / (2 * pi) * 1440 + 1 / 2\<rfloor> = 0"
proof -
  have p: "2 \<le> pi" by (rule pi_ge_two)
  have "a * 1440 \<le> 144 / 100" using assms by simp
  also have "\<dots> < pi" using p by simp
  finally have "a * 1440 / (2 * pi) < 1 / 2" using p by (simp add: field_simps)
  moreover have "0 \<le> a * 1440 / (2 * pi)" using assms p by simp
  ultimately have "0 \<le> a / (2 * pi) * 1440 + 1 / 2" "a / (2 * pi) * 1440 + 1 / 2 < 1"
    by (simp_all add: field_simps)
  then show ?thesis by (simp add: floor_eq_iff)
qed

lemma round_minute_wrap:
  assumes "a < 0" "- (1 / 1000) \<le> a"
  shows "\<lfloor>(a + 2 * pi) / (2 * pi) * 1440 + 1 / 2\<rfloor> = 1440"
proof -
  have p: "2 \<le> pi" by (rule pi_ge_two)
  have e: "(a + 2 * pi) / (2 * pi) * 1440 = 1440 + a * 1440 / (2 * pi)"
    using p by (simp add: field_simps)
  have "- pi < - (144 / 100)" using p by simp
  also have "\<dots> \<le> a * 1440" using assms by simp
  finally have "- (1 / 2) < a * 1440 / (2 * pi)" using p by (simp add: field_simps)
  moreover have "a * 1440 / (2 * pi) < 0" using assms p by (simp add: field_simps)
  ultimately have "1440 \<le> (a + 2 * pi) / (2 * pi) * 1440 + 1 / 2"
    "(a + 2 * pi) / (2 * pi) * 1440 + 1 / 2 < 1441"
    unfolding e by simp_all
  then show ?thesis by (simp add: floor_eq_iff)
qed

lemma timeOfAngle_small:
  assumes "\<bar>a\<bar> \<le> 1 / 1000"
  shows "timeOfAngle (Fin a) = ''00:00''"
proof (cases "a < 0")
  case True
  then have "- (1 / 1000) \<le> a" using assms by simp
  with True have "\<lfloor>(a + 2 * pi) / (2 * pi) * 1440 + 1 / 2\<rfloor> = 1440" by (rule round_minute_wrap)
  then have "jsRound (jsMul (jsDiv (jsAdd (Fin a) (Fin (2 * pi))) (Fin (2 * pi))) (Fin 1440)) = Fin 1440"
    by simp
  then show ?thesis using True by (simp add: timeOfAngle_def timeOfMinutes_1440)
next
  case False
  then have "0 \<le> a" "a \<le> 1 / 1000" using assms by simp_all
  then have "\<lfloor>a / (2 * pi) * 1440 + 1 / 2\<rfloor> = 0" by (rule round_minute_small)
  then have "jsRound (jsMul (jsDiv (Fin a) (Fin (2 * pi))) (Fin 1440)) = Fin 0"
    by simp
  then show ?thesis using False by (simp add: timeOfAngle_def timeOfMinutes_0)
qed

lemma valid_0030: "validHHmm ''00:30''"
  by (simp add: validHHmm_def isDigit_def digitVal_def)

lemma minutes_2330: "timeToMinutes ''23:30'' = Fin 1410" "timeToMinutes ''00:30'' = Fin 30"
  by (simp_all add: timeToMinutes_valid valid_2330 valid_0030 clockMinutes_def digitVal_def)

lemma sums_2330:
  "sin (47 * pi / 24) + sin (pi / 24) = 0"
  "0 < cos (47 * pi / 24) + cos (pi / 24)"
proof -
  have e: "47 * pi / 24 = 2 * pi - pi / 24" by simp
  have "sin (47 * pi / 24) = - sin (pi / 24)"
    unfolding e by (rule sin_2pi_minus)
  then show "sin (47 * pi / 24) + sin (pi / 24) = 0" by simp
  have c: "cos (47 * pi / 24) = cos (pi / 24)"
    unfolding e by (rule cos_2pi_minus)
  have "0 < cos (pi / 24)"
    by (rule cos_gt_zero_pi) simp_all
  then show "0 < cos (47 * pi / 24) + cos (pi / 24)"
    unfolding c by simp
qed

lemma averageTimeStr_2330: "averageTimeStr [''23:30'', ''00:30''] = ''00:00''"
proof -
  let ?y = "sin (47 * pi / 24) + sin (pi / 24)"
  let ?x = "cos (47 * pi / 24) + cos (pi / 24)"
  have s: "jsDiv (foldl (\<lambda>acc r. jsAdd acc (jsSin r)) (Fin 0)
             (map (\<lambda>t. jsMul (jsMul (jsDiv (timeToMinutes t) (Fin 1440)) (Fin 2)) (Fin pi))
                [''23:30'', ''00:30''])) (Fin (real (length [''23:30'', ''00:30'']))) = Fin (?y / 2)"
    by (simp add: minutes_2330)
  have c: "jsDiv (foldl (\<lambda>acc r. jsAdd acc (jsCos r)) (Fin 0)
             (map (\<lambda>t. jsMul (jsMul (jsDiv (timeToMinutes t) (Fin 1440)) (Fin 2)) (Fin pi))
                [''23:30'', ''00:30''])) (Fin (real (length [''23:30'', ''00:30'']))) = Fin (?x / 2)"
    by (simp add: minutes_2330)
  have "\<bar>atan2 (?y / 2) (?x / 2)\<bar> \<le> 1 / 1000"
    by (rule atan2_small) (simp_all add: sums_2330 less_imp_le[OF sums_2330(2)])
  then have "timeOfAngle (Fin (atan2 (?y / 2) (?x / 2))) = ''00:00''"
    by (rule timeOfAngle_small)
  then show ?thesis
    unfolding averageTimeStr_struct s c by simp
qed

lemma timeOfAngle_sums:
  assumes "0 < x" "\<bar>y\<bar> \<le> x / 1000"
  shows "timeOfAngle (jsAtan2 (Fin y) (Fin x)) = ''00:00''"
  using timeOfAngle_small[OF atan2_small[OF assms]] by simp

lemma naive_mean:
  "timeOfMinutes (jsDiv (jsAdd (timeToMinutes ''23:30'') (timeToMinutes ''00:30'')) (Fin 2)) = ''12:00''"
  by (simp add: minutes_2330 timeOfMinutes_720)

section \<open>The circular mean across midnight\<close>

text \<open>
  Claim C8.  \<open>averageTimeStr\<close> of \<^verbatim>\<open>["23:30", "00:30"]\<close> is \<^verbatim>\<open>"00:00"\<close>, where the arithmetic
  mean of the two minutes of the day is \<^verbatim>\<open>12:00\<close>.  For every non-empty list the result is
  \<open>timeOfAngle\<close> of the \<^verbatim>\<open>atan2\<close> of the two sums divided by the length.  The result for
  this list does not depend on the two sines cancelling exactly: every angle within a
  thousandth of a radian of zero, of either sign, gives \<^verbatim>\<open>"00:00"\<close>, and so does the
  \<^verbatim>\<open>atan2\<close> of every pair with a positive cosine part and a sine part of at most a
  thousandth of it.  A small negative angle is moved to just below \<open>2\<pi>\<close> and rounds to the
  minute 1440, whose hour 24 \<open>padTime\<close> prints as \<^verbatim>\<open>00\<close>; the minutes 0 and 1440 both
  give \<^verbatim>\<open>"00:00"\<close>.
\<close>

theorem averageTimeStr_across_midnight:
  "averageTimeStr [''23:30'', ''00:30''] = ''00:00'' \<and>
   timeOfMinutes (jsDiv (jsAdd (timeToMinutes ''23:30'') (timeToMinutes ''00:30'')) (Fin 2)) = ''12:00'' \<and>
   averageTimeStr ts =
     (if ts = [] then ''00:00''
      else timeOfAngle
        (jsAtan2
          (jsDiv (foldl (\<lambda>acc r. jsAdd acc (jsSin r)) (Fin 0)
                    (map (\<lambda>t. jsMul (jsMul (jsDiv (timeToMinutes t) (Fin 1440)) (Fin 2)) (Fin pi)) ts))
                 (Fin (real (length ts))))
          (jsDiv (foldl (\<lambda>acc r. jsAdd acc (jsCos r)) (Fin 0)
                    (map (\<lambda>t. jsMul (jsMul (jsDiv (timeToMinutes t) (Fin 1440)) (Fin 2)) (Fin pi)) ts))
                 (Fin (real (length ts)))))) \<and>
   (0 < x \<and> \<bar>y\<bar> \<le> x / 1000 \<longrightarrow> timeOfAngle (jsAtan2 (Fin y) (Fin x)) = ''00:00'') \<and>
   (\<bar>a\<bar> \<le> 1 / 1000 \<longrightarrow> timeOfAngle (Fin a) = ''00:00'') \<and>
   timeOfMinutes (Fin 0) = ''00:00'' \<and>
   timeOfMinutes (Fin 1440) = ''00:00''"
proof (intro conjI impI)
  show "averageTimeStr [''23:30'', ''00:30''] = ''00:00''" by (rule averageTimeStr_2330)
  show "timeOfMinutes (jsDiv (jsAdd (timeToMinutes ''23:30'') (timeToMinutes ''00:30'')) (Fin 2)) = ''12:00''"
    by (rule naive_mean)
  show "averageTimeStr ts =
     (if ts = [] then ''00:00''
      else timeOfAngle
        (jsAtan2
          (jsDiv (foldl (\<lambda>acc r. jsAdd acc (jsSin r)) (Fin 0)
                    (map (\<lambda>t. jsMul (jsMul (jsDiv (timeToMinutes t) (Fin 1440)) (Fin 2)) (Fin pi)) ts))
                 (Fin (real (length ts))))
          (jsDiv (foldl (\<lambda>acc r. jsAdd acc (jsCos r)) (Fin 0)
                    (map (\<lambda>t. jsMul (jsMul (jsDiv (timeToMinutes t) (Fin 1440)) (Fin 2)) (Fin pi)) ts))
                 (Fin (real (length ts))))))"
    by (rule averageTimeStr_struct)
  show "timeOfAngle (jsAtan2 (Fin y) (Fin x)) = ''00:00''" if "0 < x \<and> \<bar>y\<bar> \<le> x / 1000"
    using that by (elim conjE) (rule timeOfAngle_sums)
  show "timeOfAngle (Fin a) = ''00:00''" if "\<bar>a\<bar> \<le> 1 / 1000"
    using that by (rule timeOfAngle_small)
  show "timeOfMinutes (Fin 0) = ''00:00''" by (rule timeOfMinutes_0)
  show "timeOfMinutes (Fin 1440) = ''00:00''" by (rule timeOfMinutes_1440)
qed

theorem averageTimeStr_across_midnight_witness:
  "timeOfAngle (jsAtan2 (Fin (- (1 / 10 ^ 16))) (Fin (99 / 100))) = ''00:00'' \<and>
   timeOfAngle (Fin (- (1 / 10 ^ 16))) = ''00:00'' \<and>
   timeOfAngle (Fin (1 / 10 ^ 16)) = ''00:00''"
proof -
  note T = averageTimeStr_across_midnight[of "[]" "99 / 100" "- (1 / 10 ^ 16)" "- (1 / 10 ^ 16)"]
  note U = averageTimeStr_across_midnight[of "[]" "99 / 100" "- (1 / 10 ^ 16)" "1 / 10 ^ 16"]
  have h1: "0 < (99 / 100 :: real) \<and> \<bar>- (1 / 10 ^ 16) :: real\<bar> \<le> 99 / 100 / 1000" by simp
  have h2: "\<bar>- (1 / 10 ^ 16) :: real\<bar> \<le> 1 / 1000" by simp
  have h3: "\<bar>1 / 10 ^ 16 :: real\<bar> \<le> 1 / 1000" by simp
  note A = T[THEN conjunct2, THEN conjunct2, THEN conjunct2, THEN conjunct1, THEN mp, OF h1]
  note B = T[THEN conjunct2, THEN conjunct2, THEN conjunct2, THEN conjunct2, THEN conjunct1, THEN mp, OF h2]
  note C = U[THEN conjunct2, THEN conjunct2, THEN conjunct2, THEN conjunct2, THEN conjunct1, THEN mp, OF h3]
  from A B C show ?thesis by (intro conjI)
qed

end
